theory Spec2Isabelle
  imports Main
begin

section \<open>The webpage rendering server of \<open>source/page-server/web server.js\<close>\<close>

text \<open>
  The source file builds a Koa application out of two middleware functions of its own, the
  outer one that times the request and handles errors and the inner one that calls
  \<open>render\<close> and interprets its result, with the optional custom middleware of
  \<open>options.middleware\<close> between them.

  The embedding is by explicit state passing. Everything a handler does besides returning
  is an effect appended to a trace: the calls on the monitoring client, the lines printed
  on the console, the call of the optional logger, and the writes to the Koa context
  (\<open>ctx.status = ...\<close>, \<open>ctx.body = ...\<close>, \<open>ctx.type = ...\<close>, \<open>ctx.message = ...\<close>,
  \<open>ctx.redirect(...)\<close>). An \<open>async\<close> function that settles is a function from the state
  to an optional thrown value and the new state.

  Koa, the monitoring client, the console and the logger are outside the repository. Two
  things that Koa does are part of the model, because the source depends on them: the
  setter of \<open>ctx.status\<close> throws when the value is not an integer from 100 to 999, which
  decides the statements that run after an assignment; and when no handler has written a
  body, Koa sends the status message as the body. The other calls are recorded and taken
  to return normally; what \<open>ctx.redirect\<close> writes into the response inside Koa is not part
  of the model: a redirect is the recorded call.
\<close>

subsection \<open>JavaScript values\<close>

text \<open>
  The values that the source tests with \<open>if (v)\<close>, \<open>v || d\<close> and \<open>typeof v === 'number'\<close>,
  and the values that are thrown. \<open>Number\<close> carries the integer-valued numbers, \<open>NaN\<close> is
  the one number that is falsy besides zero, \<open>Object\<close> is an object with none of the
  properties the source reads (a stream, an array, a function), named by a tag, and
  \<open>Error_object status message stack\<close> is an object with the three properties the source
  reads of what it catches.
\<close>

datatype js_value =
    Undefined
  | Null
  | Boolean bool
  | Number int
  | NaN
  | String string
  | Object nat
  | Error_object js_value js_value js_value

fun truthy :: "js_value \<Rightarrow> bool" where
  "truthy Undefined = False"
| "truthy Null = False"
| "truthy (Boolean b) = b"
| "truthy (Number n) = (n \<noteq> 0)"
| "truthy NaN = False"
| "truthy (String s) = (s \<noteq> [])"
| "truthy (Object _) = True"
| "truthy (Error_object _ _ _) = True"

text \<open>\<open>a || b\<close>\<close>

definition js_or :: "js_value \<Rightarrow> js_value \<Rightarrow> js_value" where
  "js_or a b = (if truthy a then a else b)"

text \<open>\<open>typeof v === 'number'\<close>\<close>

fun typeof_number :: "js_value \<Rightarrow> bool" where
  "typeof_number (Number _) = True"
| "typeof_number NaN = True"
| "typeof_number _ = False"

text \<open>
  Reading a property of \<open>null\<close> or of \<open>undefined\<close> throws a \<open>TypeError\<close>; of any other
  value that has no such property it gives \<open>undefined\<close>.
\<close>

fun nullish :: "js_value \<Rightarrow> bool" where
  "nullish Undefined = True"
| "nullish Null = True"
| "nullish _ = False"

text \<open>\<open>error.status\<close>, \<open>error.message\<close> and \<open>error.stack\<close>, of a value that is not nullish.\<close>

fun error_status :: "js_value \<Rightarrow> js_value" where
  "error_status (Error_object status message stack) = status"
| "error_status _ = Undefined"

fun error_message :: "js_value \<Rightarrow> js_value" where
  "error_message (Error_object status message stack) = message"
| "error_message _ = Undefined"

fun error_stack :: "js_value \<Rightarrow> js_value" where
  "error_stack (Error_object status message stack) = stack"
| "error_stack _ = Undefined"

text \<open>What \<open>render\<close> resolves to: \<open>const { status, content, redirect } = await render(...)\<close>.\<close>

record render_result =
  status :: js_value
  content :: js_value
  redirect :: js_value

text \<open>
  What \<open>render_stack_trace\<close> returns:
  \<open>const { response_status, response_body } = render_stack_trace(...)\<close>.
\<close>

record stack_trace_page =
  response_status :: js_value
  response_body :: js_value

subsection \<open>Effects and the state of a request\<close>

datatype effect =
    Increment string          \<comment> \<open>\<open>monitoring.increment(name)\<close>\<close>
  | Started string            \<comment> \<open>\<open>monitoring.started(name)\<close>\<close>
  | Finished string           \<comment> \<open>the call of the function that \<open>monitoring.started(name)\<close> returned\<close>
  | Console_log js_value      \<comment> \<open>\<open>console.log(value)\<close>\<close>
  | Log_error js_value        \<comment> \<open>\<open>options.log.error(error)\<close>\<close>
  | Redirect js_value         \<comment> \<open>\<open>ctx.redirect(to)\<close>\<close>
  | Set_status js_value       \<comment> \<open>\<open>ctx.status = value\<close>, accepted by Koa\<close>
  | Set_body js_value         \<comment> \<open>\<open>ctx.body = value\<close>\<close>
  | Set_type string           \<comment> \<open>\<open>ctx.type = value\<close>\<close>
  | Set_message js_value      \<comment> \<open>\<open>ctx.message = value\<close>\<close>

record world =
  originalUrl :: string       \<comment> \<open>\<open>ctx.request.originalUrl\<close>\<close>
  effects :: "effect list"    \<comment> \<open>the effects performed so far, oldest first\<close>

definition perform :: "effect \<Rightarrow> world \<Rightarrow> world" where
  "perform e s = s\<lparr>effects := effects s @ [e]\<rparr>"

text \<open>
  A settled \<open>async\<close> function: \<open>Some value\<close> when its promise is rejected with \<open>value\<close>
  (any value can be thrown), \<open>None\<close> when it is fulfilled. A Koa middleware takes the rest
  of the chain as \<open>next\<close>.
\<close>

type_synonym outcome = "js_value option \<times> world"
type_synonym handler = "world \<Rightarrow> outcome"
type_synonym middleware = "world \<Rightarrow> handler \<Rightarrow> outcome"

text \<open>
  The error handler \<open>options.catch\<close>, called as \<open>error_handler(error, { url, redirect })\<close>:
  it is given the error, the url and the redirecting function.
\<close>

type_synonym error_handler =
  "js_value \<Rightarrow> string \<Rightarrow> (js_value \<Rightarrow> world \<Rightarrow> world) \<Rightarrow> handler"

record options =
  catch :: "error_handler option"
  log :: bool                            \<comment> \<open>whether \<open>options.log\<close> is given\<close>
  print_error :: js_value
  middleware :: "middleware list option"

text \<open>
  The two functions the file imports from modules of the repository that are not part of
  the sources at hand, taken as parameters: \<open>render\<close> (from \<open>./render\<close>), as a function of
  the request, which resolves to a result or is rejected with a value, and
  \<open>render_stack_trace\<close> (from \<open>./html stack trace\<close>), which returns a page or throws a value.
\<close>

record modules =
  render :: "string \<Rightarrow> js_value + render_result"
  render_stack_trace :: "js_value \<Rightarrow> js_value \<Rightarrow> js_value + stack_trace_page"

text \<open>
  The two errors that the platform makes, taken as parameters: the \<open>TypeError\<close> of
  reading a property of \<open>null\<close> or \<open>undefined\<close>, and the assertion error that the setter of
  \<open>ctx.status\<close> throws for a value it refuses.
\<close>

record runtime =
  type_error :: js_value
  status_error :: "js_value \<Rightarrow> js_value"

text \<open>
  \<open>ctx.status = value\<close>. Koa's setter asserts that the value is an integer and lies
  between 100 and 999, and throws otherwise; the status is then not assigned.
\<close>

fun valid_status :: "js_value \<Rightarrow> bool" where
  "valid_status (Number n) = (100 \<le> n \<and> n \<le> 999)"
| "valid_status _ = False"

definition assign_status :: "runtime \<Rightarrow> js_value \<Rightarrow> handler" where
  "assign_status rt v s =
    (if valid_status v then (None, perform (Set_status v) s)
     else (Some (status_error rt v), s))"

subsection \<open>The url used in the metric names\<close>

text \<open>
  \<open>ctx.request.originalUrl.replace(/\?$/, '')\<close>: the regular expression is tried at each
  position from the left, and matches a question mark that the end of the input follows;
  the first match is replaced by the empty string.
\<close>

fun trim_question_mark :: "string \<Rightarrow> string" where
  "trim_question_mark [] = []"
| "trim_question_mark [c] = (if c = CHR ''?'' then [] else [c])"
| "trim_question_mark (c # d # cs) = c # trim_question_mark (d # cs)"

subsection \<open>The error-handling middleware\<close>

text \<open>
  The end of the outer \<open>catch\<close> block, from \<open>// log the error\<close> on. Reading \<open>error.status\<close>
  throws when what was caught is \<open>null\<close> or \<open>undefined\<close>, and the assignment of the status
  throws when Koa refuses the value; the message is then not assigned.
\<close>

definition respond_with_error :: "runtime \<Rightarrow> options \<Rightarrow> js_value \<Rightarrow> handler" where
  "respond_with_error rt opts error s =
    (let s1 = perform (Console_log
                (String ''[react-isomorphic-render] Webpage rendering server error'')) s;
         s2 = (if log opts then perform (Log_error error) s1 else s1)
     in if nullish error then (Some (type_error rt), s2)
        else
          (case assign_status rt
                  (if typeof_number (error_status error) then error_status error
                   else Number 500) s2 of
             (Some thrown, s3) \<Rightarrow> (Some thrown, s3)
           | (None, s3) \<Rightarrow>
               (None, perform (Set_message
                        (js_or (error_message error) (String ''Internal error''))) s3)))"

text \<open>
  The inner \<open>catch (error)\<close> block, for what the inner \<open>try\<close> threw, and the statements
  after it. Reading \<open>error.stack\<close> throws when what was caught is \<open>null\<close> or \<open>undefined\<close>.
\<close>

definition stack_trace_failed :: "runtime \<Rightarrow> options \<Rightarrow> js_value \<Rightarrow> js_value \<Rightarrow> handler" where
  "stack_trace_failed rt opts error inner s =
    (let s1 = perform (Console_log (String ''(couldn't render error stack trace)'')) s
     in if nullish inner then (Some (type_error rt), s1)
        else respond_with_error rt opts error
               (perform (Console_log (js_or (error_stack inner) inner)) s1))"

text \<open>
  The outer \<open>catch (error)\<close> block. The inner \<open>try\<close> holds the call of
  \<open>render_stack_trace\<close> and the three assignments of the page, of which the first can throw.
\<close>

definition on_error :: "bool \<Rightarrow> runtime \<Rightarrow> modules \<Rightarrow> options \<Rightarrow> js_value \<Rightarrow> handler" where
  "on_error development rt mods opts error s =
    (let s1 = perform (Increment ''requests.errors'') s in
     if development then
       (case render_stack_trace mods error (print_error opts) of
          Inr page \<Rightarrow>
            if truthy (response_body page) then
              (case assign_status rt (js_or (response_status page) (Number 500)) s1 of
                 (Some inner, s2) \<Rightarrow> stack_trace_failed rt opts error inner s2
               | (None, s2) \<Rightarrow>
                   (None, perform (Set_type ''html'')
                            (perform (Set_body (response_body page)) s2)))
            else respond_with_error rt opts error s1
        | Inl inner \<Rightarrow> stack_trace_failed rt opts error inner s1)
     else respond_with_error rt opts error s1)"

text \<open>
  The statements of the outer middleware before its \<open>try\<close>, \<open>url\<close> being the constant
  the middleware computes first.
\<close>

definition begin_request :: "string \<Rightarrow> world \<Rightarrow> world" where
  "begin_request url s =
    (let s1 = perform (Increment ''request.count'') s;
         s2 = perform (Increment (''request.url.count.'' @ url)) s1;
         s3 = perform (Started ''request'') s2
     in perform (Started (''request.url.time.'' @ url)) s3)"

text \<open>
  The \<open>finally\<close> block: \<open>finished()\<close>, then \<open>finished_url()\<close>, which stop the two timers
  that \<open>begin_request\<close> started.
\<close>

definition end_request :: "string \<Rightarrow> world \<Rightarrow> world" where
  "end_request url s =
    perform (Finished (''request.url.time.'' @ url)) (perform (Finished ''request'') s)"

text \<open>
  The first \<open>web.use(async (ctx, next) => ...)\<close>. What the \<open>catch\<close> block throws leaves
  the middleware after the \<open>finally\<close> block has run.
\<close>

definition handle_errors :: "bool \<Rightarrow> runtime \<Rightarrow> modules \<Rightarrow> options \<Rightarrow> middleware" where
  "handle_errors development rt mods opts s next =
    (let url = trim_question_mark (originalUrl s)
     in case next (begin_request url s) of
          (None, s') \<Rightarrow> (None, end_request url s')
        | (Some error, s') \<Rightarrow>
            (case on_error development rt mods opts error s' of
               (thrown, s'') \<Rightarrow> (thrown, end_request url s'')))"

subsection \<open>The rendering middleware\<close>

text \<open>\<open>const redirect_to = to => ctx.redirect(to)\<close>\<close>

definition redirect_to :: "js_value \<Rightarrow> world \<Rightarrow> world" where
  "redirect_to to s = perform (Redirect to) s"

text \<open>The \<open>catch (error)\<close> block of the rendering middleware.\<close>

definition rendering_failed :: "options \<Rightarrow> string \<Rightarrow> js_value \<Rightarrow> handler" where
  "rendering_failed opts url error s =
    (let s1 = perform (Increment ''requests.errors.handled'') s
     in case catch opts of
          Some error_handler \<Rightarrow> error_handler error url redirect_to s1
        | None \<Rightarrow> (Some error, s1))"

text \<open>
  The last \<open>web.use(async (ctx) => ...)\<close>. Its \<open>try\<close> holds the call of \<open>render\<close> and the
  interpretation of the result, of which the assignment of the status can throw.
\<close>

definition isomorphic_rendering :: "runtime \<Rightarrow> modules \<Rightarrow> options \<Rightarrow> handler" where
  "isomorphic_rendering rt mods opts s =
    (let url = trim_question_mark (originalUrl s);
         s1 = perform (Increment (''request.url.hits.'' @ url)) s
     in case render mods (originalUrl s) of
          Inr result \<Rightarrow>
            if truthy (redirect result) then (None, redirect_to (redirect result) s1)
            else
              (case (if truthy (status result) then assign_status rt (status result) s1
                     else (None, s1)) of
                 (Some error, s2) \<Rightarrow> rendering_failed opts url error s2
               | (None, s2) \<Rightarrow> (None, perform (Set_body (content result)) s2))
        | Inl error \<Rightarrow> rendering_failed opts url error s1)"

subsection \<open>The server\<close>

text \<open>
  Koa runs the middleware in the order of the \<open>web.use\<close> calls, each with the rest of the
  chain as its \<open>next\<close>; past the last one \<open>next\<close> does nothing. The rendering middleware
  takes no \<open>next\<close>: it is the end of the chain.
\<close>

fun compose :: "middleware list \<Rightarrow> handler" where
  "compose [] s = (None, s)"
| "compose (m # ms) s = m s (compose ms)"

text \<open>\<open>if (options.middleware) { for (let middleware of options.middleware) web.use(middleware) }\<close>\<close>

definition custom_middleware :: "options \<Rightarrow> middleware list" where
  "custom_middleware opts = (case middleware opts of None \<Rightarrow> [] | Some ms \<Rightarrow> ms)"

text \<open>What \<open>next\<close> is for the error-handling middleware.\<close>

definition downstream :: "runtime \<Rightarrow> modules \<Rightarrow> options \<Rightarrow> handler" where
  "downstream rt mods opts =
    compose (custom_middleware opts @ [\<lambda>s next. isomorphic_rendering rt mods opts s])"

text \<open>
  \<open>start_webpage_rendering_server(options, common)\<close>, with the value of
  \<open>process.env.NODE_ENV\<close> (\<open>None\<close> when the variable is not set), the platform and the
  imported functions as further arguments. \<open>development\<close> is computed once, when the server
  is made.
\<close>

definition development_mode :: "string option \<Rightarrow> bool" where
  "development_mode node_env = (node_env \<noteq> Some ''production'')"

definition start_webpage_rendering_server ::
  "string option \<Rightarrow> runtime \<Rightarrow> modules \<Rightarrow> options \<Rightarrow> handler" where
  "start_webpage_rendering_server node_env rt mods opts =
    (let development = development_mode node_env
     in compose (handle_errors development rt mods opts
                 # custom_middleware opts
                 @ [\<lambda>s next. isomorphic_rendering rt mods opts s]))"

text \<open>A request as it reaches the server: nothing has been done yet.\<close>

definition request :: "string \<Rightarrow> world" where
  "request url = \<lparr>originalUrl = url, effects = []\<rparr>"

subsection \<open>The response, read off the effects\<close>

text \<open>
  The last value that a handler assigned to a property of the context, if any did. What
  Koa does to the status by itself (302 for a redirect, 204 for a body that is \<open>null\<close> or
  \<open>undefined\<close>, 200 for any other body when no status was assigned) is no assignment of a
  handler: \<open>None\<close> is the status left to the framework.
\<close>

definition ctx_status :: "effect list \<Rightarrow> js_value option" where
  "ctx_status t = fold (\<lambda>e r. case e of Set_status v \<Rightarrow> Some v | _ \<Rightarrow> r) t None"

definition ctx_body :: "effect list \<Rightarrow> js_value option" where
  "ctx_body t = fold (\<lambda>e r. case e of Set_body v \<Rightarrow> Some v | _ \<Rightarrow> r) t None"

definition ctx_type :: "effect list \<Rightarrow> string option" where
  "ctx_type t = fold (\<lambda>e r. case e of Set_type v \<Rightarrow> Some v | _ \<Rightarrow> r) t None"

definition ctx_message :: "effect list \<Rightarrow> js_value option" where
  "ctx_message t = fold (\<lambda>e r. case e of Set_message v \<Rightarrow> Some v | _ \<Rightarrow> r) t None"

text \<open>
  The body that Koa sends when the handlers have returned, for a request that is not a
  \<open>HEAD\<close> request and a status message that fits a status line. A body that a handler has
  written is sent (a redirect writes one of Koa's own making, which is not modelled: it
  shows as \<open>None\<close>). When no handler has written a body, Koa sends the status message as the
  body. A response with a status from 100 to 199, or 204, 205 or 304, is sent without a
  body.
\<close>

fun writes_body :: "effect \<Rightarrow> bool" where
  "writes_body (Set_body _) = True"
| "writes_body (Redirect _) = True"
| "writes_body _ = False"

fun bodiless_status :: "js_value option \<Rightarrow> bool" where
  "bodiless_status (Some (Number n)) = ((100 \<le> n \<and> n \<le> 199) \<or> n = 204 \<or> n = 205 \<or> n = 304)"
| "bodiless_status _ = False"

definition sent_body :: "effect list \<Rightarrow> js_value option" where
  "sent_body t =
    (if bodiless_status (ctx_status t) then None
     else if list_ex writes_body t
       then fold (\<lambda>e r. case e of Set_body v \<Rightarrow> Some v | Redirect v \<Rightarrow> None | _ \<Rightarrow> r) t None
       else ctx_message t)"

text \<open>
  The response-producing actions: a redirect, a body written (the content of the page, or
  the diagnostic page of the development mode), an error response written (the status
  message of the generic error response).
\<close>

fun response_action :: "effect \<Rightarrow> bool" where
  "response_action (Redirect _) = True"
| "response_action (Set_body _) = True"
| "response_action (Set_message _) = True"
| "response_action _ = False"

definition response_actions :: "effect list \<Rightarrow> effect list" where
  "response_actions t = filter response_action t"

text \<open>The effects on the two timers of the error-handling middleware (and on any other).\<close>

fun timer_effect :: "effect \<Rightarrow> bool" where
  "timer_effect (Started _) = True"
| "timer_effect (Finished _) = True"
| "timer_effect _ = False"

text \<open>
  An error the outer boundary can answer: an object (anything but \<open>null\<close> and \<open>undefined\<close>)
  whose \<open>status\<close>, when it is a number, is one that Koa accepts.
\<close>

definition answerable :: "js_value \<Rightarrow> bool" where
  "answerable error =
    (\<not> nullish error \<and> (\<not> typeof_number (error_status error) \<or> valid_status (error_status error)))"

subsection \<open>Configurations of the examples\<close>

text \<open>An error as a failed authorisation check throws it.\<close>

definition forbidden :: js_value where
  "forbidden = Error_object (Number 403) (String ''Forbidden'')
                 (String ''Error: Forbidden at preload'')"

text \<open>A platform: errors with a message and a stack, and no status.\<close>

definition node_koa :: runtime where
  "node_koa =
     \<lparr>type_error = Error_object Undefined (String ''Cannot read property of undefined'')
                     (String ''TypeError: Cannot read property of undefined''),
      status_error = (\<lambda>v. Error_object Undefined (String ''invalid status code'')
                     (String ''AssertionError: invalid status code''))\<rparr>"

text \<open>A server with no option set.\<close>

definition plain_options :: options where
  "plain_options = \<lparr>catch = None, log = False, print_error = Undefined, middleware = None\<rparr>"

text \<open>
  Imported functions: a \<open>render\<close> that is rejected with \<open>forbidden\<close>, one that resolves to
  a result, and a \<open>render_stack_trace\<close> that returns a page with no status of its own, as
  for an error that has a stack and nothing else to show.
\<close>

definition stack_page :: stack_trace_page where
  "stack_page = \<lparr>response_status = Undefined,
                 response_body = String ''<html>Error: Forbidden at preload</html>''\<rparr>"

definition rejecting :: modules where
  "rejecting = \<lparr>render = (\<lambda>url. Inl forbidden),
                render_stack_trace = (\<lambda>error print. Inr stack_page)\<rparr>"

definition resolving :: "render_result \<Rightarrow> modules" where
  "resolving result = \<lparr>render = (\<lambda>url. Inr result),
                       render_stack_trace = (\<lambda>error print. Inr stack_page)\<rparr>"



text \<open>
  Error handlers: \<open>(error) => console.log(error)\<close>, which only prints,
  \<open>(error) => { throw error }\<close>, and \<open>(error, { redirect }) => redirect('/error')\<close>.
\<close>

definition printing_handler :: error_handler where
  "printing_handler error url redirection s = (None, perform (Console_log error) s)"

definition rethrowing_handler :: error_handler where
  "rethrowing_handler error url redirection s = (Some error, s)"

definition redirecting_handler :: error_handler where
  "redirecting_handler error url redirection s = (None, redirection (String ''/error'') s)"

text \<open>A custom middleware: \<open>async (ctx, next) => { ctx.body = 'Loading'; await next() }\<close>.\<close>

definition placeholder_body :: middleware where
  "placeholder_body s next = next (perform (Set_body (String ''Loading'')) s)"

section \<open>Properties\<close>

subsection \<open>Effects of the parts\<close>

lemma effects_perform [simp]: "effects (perform e s) = effects s @ [e]"
  by (simp add: perform_def)

lemma originalUrl_perform [simp]: "originalUrl (perform e s) = originalUrl s"
  by (simp add: perform_def)

lemma effects_begin_request:
  "effects (begin_request url s) =
     effects s @ [Increment ''request.count'', Increment (''request.url.count.'' @ url),
                  Started ''request'', Started (''request.url.time.'' @ url)]"
  by (simp add: begin_request_def Let_def)

lemma originalUrl_begin_request [simp]: "originalUrl (begin_request url s) = originalUrl s"
  by (simp add: begin_request_def Let_def)

lemma effects_end_request:
  "effects (end_request url s) =
     effects s @ [Finished ''request'', Finished (''request.url.time.'' @ url)]"
  by (simp add: end_request_def)

lemma originalUrl_request [simp]: "originalUrl (request url) = url"
  by (simp add: request_def)

lemma effects_request [simp]: "effects (request url) = []"
  by (simp add: request_def)

lemma assign_status_valid:
  "valid_status v \<Longrightarrow> assign_status rt v s = (None, perform (Set_status v) s)"
  by (simp add: assign_status_def)

lemma assign_status_refused:
  "\<not> valid_status v \<Longrightarrow> assign_status rt v s = (Some (status_error rt v), s)"
  by (simp add: assign_status_def)

lemma valid_status_500 [simp]: "valid_status (Number 500)"
  by simp

text \<open>The generic error response: when it is written, and what is performed when not.\<close>

lemma respond_with_error_answerable:
  assumes "answerable error"
  shows "respond_with_error rt opts error s =
     (None,
      perform (Set_message (js_or (error_message error) (String ''Internal error'')))
        (perform (Set_status (if typeof_number (error_status error) then error_status error
                              else Number 500))
          (if log opts
           then perform (Log_error error)
                  (perform (Console_log
                    (String ''[react-isomorphic-render] Webpage rendering server error'')) s)
           else perform (Console_log
                    (String ''[react-isomorphic-render] Webpage rendering server error'')) s)))"
  using assms
  by (auto simp add: respond_with_error_def answerable_def assign_status_def Let_def)

lemma effects_respond_with_error:
  assumes "answerable error"
  shows "effects (snd (respond_with_error rt opts error s)) =
     effects s
     @ [Console_log (String ''[react-isomorphic-render] Webpage rendering server error'')]
     @ (if log opts then [Log_error error] else [])
     @ [Set_status (if typeof_number (error_status error) then error_status error
                    else Number 500),
        Set_message (js_or (error_message error) (String ''Internal error''))]"
  by (simp add: respond_with_error_answerable [OF assms])

lemma respond_with_error_thrown:
  assumes "\<not> answerable error"
  shows "respond_with_error rt opts error s =
     (Some (if nullish error then type_error rt else status_error rt (error_status error)),
      if log opts
      then perform (Log_error error)
             (perform (Console_log
               (String ''[react-isomorphic-render] Webpage rendering server error'')) s)
      else perform (Console_log
               (String ''[react-isomorphic-render] Webpage rendering server error'')) s)"
  using assms
  by (auto simp add: respond_with_error_def answerable_def assign_status_def Let_def)

lemma respond_with_error_returns:
  "fst (respond_with_error rt opts error s) = None \<longleftrightarrow> answerable error"
  by (cases "answerable error")
    (simp_all add: respond_with_error_answerable respond_with_error_thrown)

text \<open>What every way through a part of the boundary has in common.\<close>

lemma respond_with_error_extends:
  "\<exists>u. effects (snd (respond_with_error rt opts error s)) = effects s @ u
       \<and> filter timer_effect u = []
       \<and> length (response_actions u) =
           (if fst (respond_with_error rt opts error s) = None then 1 else 0)"
  by (cases "answerable error")
    (simp_all add: respond_with_error_answerable respond_with_error_thrown
      response_actions_def)

lemma stack_trace_failed_extends:
  "\<exists>u. effects (snd (stack_trace_failed rt opts error inner s)) = effects s @ u
       \<and> filter timer_effect u = []
       \<and> length (response_actions u) =
           (if fst (stack_trace_failed rt opts error inner s) = None then 1 else 0)"
proof (cases "nullish inner")
  case True
  then show ?thesis
    by (simp add: stack_trace_failed_def Let_def response_actions_def)
next
  case False
  let ?s = "perform (Console_log (js_or (error_stack inner) inner))
      (perform (Console_log (String ''(couldn't render error stack trace)'')) s)"
  obtain u where u: "effects (snd (respond_with_error rt opts error ?s)) = effects ?s @ u"
    "filter timer_effect u = []"
    "length (response_actions u) =
       (if fst (respond_with_error rt opts error ?s) = None then 1 else 0)"
    using respond_with_error_extends [of rt opts error ?s] by blast
  have "stack_trace_failed rt opts error inner s = respond_with_error rt opts error ?s"
    using False by (simp add: stack_trace_failed_def Let_def)
  with u show ?thesis
    by (intro exI [of _ "[Console_log (String ''(couldn't render error stack trace)''),
        Console_log (js_or (error_stack inner) inner)] @ u"])
      (simp add: response_actions_def)
qed

lemma on_error_extends:
  "\<exists>u. effects (snd (on_error development rt mods opts error s)) = effects s @ u
       \<and> filter timer_effect u = []
       \<and> length (response_actions u) =
           (if fst (on_error development rt mods opts error s) = None then 1 else 0)"
proof -
  let ?s1 = "perform (Increment ''requests.errors'') s"
  have generic: "\<exists>u. effects (snd (respond_with_error rt opts error ?s1)) = effects s @ u
       \<and> filter timer_effect u = []
       \<and> length (response_actions u) =
           (if fst (respond_with_error rt opts error ?s1) = None then 1 else 0)"
  proof -
    obtain u where "effects (snd (respond_with_error rt opts error ?s1)) = effects ?s1 @ u"
      "filter timer_effect u = []"
      "length (response_actions u) =
         (if fst (respond_with_error rt opts error ?s1) = None then 1 else 0)"
      using respond_with_error_extends [of rt opts error ?s1] by blast
    then show ?thesis
      by (intro exI [of _ "Increment ''requests.errors'' # u"])
        (simp add: response_actions_def)
  qed
  have failed: "\<exists>u. effects (snd (stack_trace_failed rt opts error inner ?s1)) = effects s @ u
       \<and> filter timer_effect u = []
       \<and> length (response_actions u) =
           (if fst (stack_trace_failed rt opts error inner ?s1) = None then 1 else 0)" for inner
  proof -
    obtain u where "effects (snd (stack_trace_failed rt opts error inner ?s1)) = effects ?s1 @ u"
      "filter timer_effect u = []"
      "length (response_actions u) =
         (if fst (stack_trace_failed rt opts error inner ?s1) = None then 1 else 0)"
      using stack_trace_failed_extends [of rt opts error inner ?s1] by blast
    then show ?thesis
      by (intro exI [of _ "Increment ''requests.errors'' # u"])
        (simp add: response_actions_def)
  qed
  show ?thesis
  proof (cases development)
    case False
    with generic show ?thesis by (simp add: on_error_def Let_def)
  next
    case True
    show ?thesis
    proof (cases "render_stack_trace mods error (print_error opts)")
      case (Inl inner)
      with True failed [of inner] show ?thesis by (simp add: on_error_def Let_def)
    next
      case (Inr page)
      show ?thesis
      proof (cases "truthy (response_body page)")
        case False
        with True Inr generic show ?thesis by (simp add: on_error_def Let_def)
      next
        case body: True
        show ?thesis
        proof (cases "valid_status (js_or (response_status page) (Number 500))")
          case True
          with \<open>development\<close> Inr body show ?thesis
            by (intro exI [of _ "[Increment ''requests.errors'',
                Set_status (js_or (response_status page) (Number 500)),
                Set_body (response_body page), Set_type ''html'']"])
              (simp add: on_error_def Let_def assign_status_valid response_actions_def)
        next
          case False
          with \<open>development\<close> Inr body
            failed [of "status_error rt (js_or (response_status page) (Number 500))"]
          show ?thesis
            by (simp add: on_error_def Let_def assign_status_refused)
        qed
      qed
    qed
  qed
qed

lemma server_unfold:
  "start_webpage_rendering_server node_env rt mods opts s =
     handle_errors (development_mode node_env) rt mods opts s (downstream rt mods opts)"
  by (simp add: start_webpage_rendering_server_def downstream_def Let_def)

lemma server_on_throw:
  assumes "downstream rt mods opts (begin_request (trim_question_mark (originalUrl s)) s)
             = (Some error, s')"
  shows "start_webpage_rendering_server node_env rt mods opts s =
           (fst (on_error (development_mode node_env) rt mods opts error s'),
            end_request (trim_question_mark (originalUrl s))
              (snd (on_error (development_mode node_env) rt mods opts error s')))"
  using assms by (simp add: server_unfold handle_errors_def Let_def split: prod.splits)

lemma server_on_return:
  assumes "downstream rt mods opts (begin_request (trim_question_mark (originalUrl s)) s)
             = (None, s')"
  shows "start_webpage_rendering_server node_env rt mods opts s =
           (None, end_request (trim_question_mark (originalUrl s)) s')"
  using assms by (simp add: server_unfold handle_errors_def Let_def)

lemma ctx_status_append:
  "ctx_status (t @ u) =
     fold (\<lambda>e r. case e of Set_status v \<Rightarrow> Some v | _ \<Rightarrow> r) u (ctx_status t)"
  by (simp add: ctx_status_def)

lemma ctx_body_append:
  "ctx_body (t @ u) =
     fold (\<lambda>e r. case e of Set_body v \<Rightarrow> Some v | _ \<Rightarrow> r) u (ctx_body t)"
  by (simp add: ctx_body_def)

lemma ctx_type_append:
  "ctx_type (t @ u) =
     fold (\<lambda>e r. case e of Set_type v \<Rightarrow> Some v | _ \<Rightarrow> r) u (ctx_type t)"
  by (simp add: ctx_type_def)

lemma ctx_message_append:
  "ctx_message (t @ u) =
     fold (\<lambda>e r. case e of Set_message v \<Rightarrow> Some v | _ \<Rightarrow> r) u (ctx_message t)"
  by (simp add: ctx_message_def)

lemmas ctx_append = ctx_status_append ctx_body_append ctx_type_append ctx_message_append

lemma ctx_nil [simp]:
  "ctx_status [] = None" "ctx_body [] = None" "ctx_type [] = None" "ctx_message [] = None"
  by (simp_all add: ctx_status_def ctx_body_def ctx_type_def ctx_message_def)

text \<open>The rendering middleware, by the result of \<open>render\<close>.\<close>

lemma downstream_plain:
  "custom_middleware opts = [] \<Longrightarrow>
     downstream rt mods opts = isomorphic_rendering rt mods opts"
  by (rule ext) (simp add: downstream_def)

lemma rendering_redirect:
  assumes "render mods (originalUrl s) = Inr result"
    and "truthy (redirect result)"
  shows "isomorphic_rendering rt mods opts s =
     (None,
      perform (Redirect (redirect result))
        (perform (Increment (''request.url.hits.'' @ trim_question_mark (originalUrl s))) s))"
  using assms by (simp add: isomorphic_rendering_def redirect_to_def Let_def)

lemma rendering_content:
  assumes "render mods (originalUrl s) = Inr result"
    and "\<not> truthy (redirect result)"
    and "\<not> truthy (status result) \<or> valid_status (status result)"
  shows "isomorphic_rendering rt mods opts s =
     (None,
      perform (Set_body (content result))
        (if truthy (status result)
         then perform (Set_status (status result))
                (perform (Increment (''request.url.hits.'' @ trim_question_mark (originalUrl s))) s)
         else perform (Increment (''request.url.hits.'' @ trim_question_mark (originalUrl s))) s))"
  using assms by (auto simp add: isomorphic_rendering_def assign_status_def Let_def)

lemma rendering_refused:
  assumes "render mods (originalUrl s) = Inr result"
    and "\<not> truthy (redirect result)"
    and "truthy (status result)" and "\<not> valid_status (status result)"
  shows "isomorphic_rendering rt mods opts s =
     rendering_failed opts (trim_question_mark (originalUrl s))
       (status_error rt (status result))
       (perform (Increment (''request.url.hits.'' @ trim_question_mark (originalUrl s))) s)"
  using assms by (simp add: isomorphic_rendering_def assign_status_def Let_def)

lemma rendering_rejected:
  assumes "render mods (originalUrl s) = Inl error"
  shows "isomorphic_rendering rt mods opts s =
     rendering_failed opts (trim_question_mark (originalUrl s)) error
       (perform (Increment (''request.url.hits.'' @ trim_question_mark (originalUrl s))) s)"
  using assms by (simp add: isomorphic_rendering_def Let_def)

lemma rendering_failed_no_handler:
  "catch opts = None \<Longrightarrow>
     rendering_failed opts url error s =
       (Some error, perform (Increment ''requests.errors.handled'') s)"
  by (simp add: rendering_failed_def Let_def)

lemma rendering_failed_handler:
  "catch opts = Some h \<Longrightarrow>
     rendering_failed opts url error s =
       h error url redirect_to (perform (Increment ''requests.errors.handled'') s)"
  by (simp add: rendering_failed_def Let_def)

text \<open>The configurations of the examples.\<close>

lemma plain_options_simps [simp]:
  "custom_middleware plain_options = []" "catch plain_options = None"
  "log plain_options = False" "print_error plain_options = Undefined"
  by (simp_all add: plain_options_def custom_middleware_def)

lemma handler_options_simps [simp]:
  "custom_middleware (plain_options\<lparr>catch := Some h\<rparr>) = []"
  "catch (plain_options\<lparr>catch := Some h\<rparr>) = Some h"
  "log (plain_options\<lparr>catch := Some h\<rparr>) = False"
  "print_error (plain_options\<lparr>catch := Some h\<rparr>) = Undefined"
  by (simp_all add: plain_options_def custom_middleware_def)

lemma rejecting_simps [simp]:
  "render rejecting url = Inl forbidden"
  "render_stack_trace rejecting error v = Inr stack_page"
  by (simp_all add: rejecting_def)

lemma resolving_simps [simp]:
  "render (resolving result) url = Inr result"
  by (simp add: resolving_def)

lemma forbidden_simps [simp]:
  "answerable forbidden" "\<not> nullish forbidden"
  "error_status forbidden = Number 403" "error_message forbidden = String ''Forbidden''"
  by (simp_all add: forbidden_def answerable_def)

lemma rejecting_downstream:
  "downstream rt rejecting plain_options s =
     (Some forbidden,
      perform (Increment ''requests.errors.handled'')
        (perform (Increment (''request.url.hits.'' @ trim_question_mark (originalUrl s))) s))"
  by (simp add: downstream_plain rendering_rejected rendering_failed_no_handler)

subsection \<open>The url of the metric names\<close>

lemma trim_question_mark_snoc:
  "trim_question_mark (xs @ [c]) = (if c = CHR ''?'' then xs else xs @ [c])"
  by (induction xs rule: trim_question_mark.induct) auto

lemma trim_question_mark_last:
  "trim_question_mark p = (if p \<noteq> [] \<and> last p = CHR ''?'' then butlast p else p)"
proof (cases p rule: rev_cases)
  case Nil
  then show ?thesis by simp
next
  case (snoc xs c)
  then show ?thesis by (simp add: trim_question_mark_snoc)
qed

lemma rendering_extends:
  assumes "catch opts = None"
  shows "\<exists>u. effects (snd (isomorphic_rendering rt mods opts s)) =
     effects s @ Increment (''request.url.hits.'' @ trim_question_mark (originalUrl s)) # u"
proof (cases "render mods (originalUrl s)")
  case (Inl error)
  then show ?thesis
    using assms by (simp add: rendering_rejected rendering_failed_no_handler)
next
  case (Inr result)
  show ?thesis
  proof (cases "truthy (redirect result)")
    case True
    with Inr show ?thesis by (simp add: rendering_redirect)
  next
    case False
    show ?thesis
    proof (cases "\<not> truthy (status result) \<or> valid_status (status result)")
      case True
      with Inr False show ?thesis by (auto simp add: rendering_content)
    next
      case False
      with Inr \<open>\<not> truthy (redirect result)\<close> show ?thesis
        using assms by (simp add: rendering_refused rendering_failed_no_handler)
    qed
  qed
qed

lemma server_ends_with_the_stops:
  "\<exists>t. effects (snd (start_webpage_rendering_server node_env rt mods opts s)) =
     t @ [Finished ''request'',
          Finished (''request.url.time.'' @ trim_question_mark (originalUrl s))]"
  by (simp add: server_unfold handle_errors_def Let_def effects_end_request
      split: prod.splits option.splits)

text \<open>
  C9. The key used in the metric names is the request path without its last character
  when that character is a question mark, and the path itself otherwise. One question
  mark is removed and no more: of a path that ends in two, one stays. This key labels the
  metrics of the server: for every request the error-handling middleware counts the
  request and starts the timer of the url under the key before it hands the request on
  (the rest of the chain is run on that state and on no other), and stops the timer of the
  url under the key at the end; and the rendering middleware counts the hit under the key.
\<close>

theorem metric_key_is_trimmed_path:
  fixes p :: string
  defines "key \<equiv> (if p \<noteq> [] \<and> last p = CHR ''?'' then butlast p else p)"
  shows "trim_question_mark p = key
   \<and> trim_question_mark (q @ ''??'') = q @ ''?''
   \<and> handle_errors development rt mods opts (request p) next =
       handle_errors development rt mods opts (request p)
         (\<lambda>s. next \<lparr>originalUrl = p,
                     effects = [Increment ''request.count'',
                                Increment (''request.url.count.'' @ key),
                                Started ''request'',
                                Started (''request.url.time.'' @ key)]\<rparr>)
   \<and> (\<exists>t. effects (snd (start_webpage_rendering_server node_env rt mods opts (request p))) =
          t @ [Finished ''request'', Finished (''request.url.time.'' @ key)])
   \<and> (\<exists>u. effects (snd (isomorphic_rendering rt mods (opts\<lparr>catch := None\<rparr>) (request p))) =
          Increment (''request.url.hits.'' @ key) # u)
   \<and> (custom_middleware opts = [] \<longrightarrow> catch opts = None \<longrightarrow>
       take 5 (effects (snd (start_webpage_rendering_server node_env rt mods opts (request p)))) =
         [Increment ''request.count'',
          Increment (''request.url.count.'' @ key),
          Started ''request'',
          Started (''request.url.time.'' @ key),
          Increment (''request.url.hits.'' @ key)])"
proof -
  have k: "trim_question_mark p = key"
    by (simp only: key_def trim_question_mark_last)
  have q: "trim_question_mark (q @ ''??'') = q @ ''?''"
    using trim_question_mark_snoc [of "q @ ''?''" "CHR ''?''"] by simp
  have b: "begin_request key (request p) =
      \<lparr>originalUrl = p,
       effects = [Increment ''request.count'', Increment (''request.url.count.'' @ key),
                  Started ''request'', Started (''request.url.time.'' @ key)]\<rparr>"
    by (simp add: begin_request_def perform_def request_def Let_def)
  have n: "handle_errors development rt mods opts (request p) next =
       handle_errors development rt mods opts (request p)
         (\<lambda>s. next \<lparr>originalUrl = p,
                     effects = [Increment ''request.count'',
                                Increment (''request.url.count.'' @ key),
                                Started ''request'',
                                Started (''request.url.time.'' @ key)]\<rparr>)"
    by (simp add: handle_errors_def k b Let_def)
  have e: "\<exists>t. effects (snd (start_webpage_rendering_server node_env rt mods opts (request p))) =
          t @ [Finished ''request'', Finished (''request.url.time.'' @ key)]"
    using server_ends_with_the_stops [of node_env rt mods opts "request p"] by (simp add: k)
  have h: "\<exists>u. effects (snd (isomorphic_rendering rt mods (opts\<lparr>catch := None\<rparr>) (request p))) =
          Increment (''request.url.hits.'' @ key) # u"
    using rendering_extends [of "opts\<lparr>catch := None\<rparr>" rt mods "request p"] by (simp add: k)
  have five: "take 5 (effects (snd (start_webpage_rendering_server node_env rt mods opts
        (request p)))) =
         [Increment ''request.count'',
          Increment (''request.url.count.'' @ key),
          Started ''request'',
          Started (''request.url.time.'' @ key),
          Increment (''request.url.hits.'' @ key)]"
    if plain: "custom_middleware opts = []" and none: "catch opts = None"
  proof -
    let ?b = "begin_request key (request p)"
    obtain r s' where d: "downstream rt mods opts ?b = (r, s')"
      by (cases "downstream rt mods opts ?b")
    obtain u where "effects (snd (isomorphic_rendering rt mods opts ?b)) =
        effects ?b @ Increment (''request.url.hits.'' @ trim_question_mark (originalUrl ?b)) # u"
      using rendering_extends [OF none, of rt mods ?b] by blast
    then have s': "effects s' =
        [Increment ''request.count'', Increment (''request.url.count.'' @ key),
         Started ''request'', Started (''request.url.time.'' @ key),
         Increment (''request.url.hits.'' @ key)] @ u"
      using d by (simp add: downstream_plain [OF plain] b k)
    show ?thesis
    proof (cases r)
      case None
      with d have "start_webpage_rendering_server node_env rt mods opts (request p) =
          (None, end_request key s')"
        using server_on_return [of rt mods opts "request p" s' node_env] by (simp add: k)
      then show ?thesis
        by (simp add: effects_end_request s')
    next
      case (Some error)
      obtain w where w: "effects (snd (on_error (development_mode node_env) rt mods opts error s')) =
          effects s' @ w"
        using on_error_extends [of "development_mode node_env" rt mods opts error s'] by blast
      from Some d have "start_webpage_rendering_server node_env rt mods opts (request p) =
          (fst (on_error (development_mode node_env) rt mods opts error s'),
           end_request key (snd (on_error (development_mode node_env) rt mods opts error s')))"
        using server_on_throw [of rt mods opts "request p" error s' node_env] by (simp add: k)
      then show ?thesis
        by (simp add: effects_end_request w s')
    qed
  qed
  show ?thesis
    using k q n e h five by blast
qed

theorem metric_key_is_trimmed_path_witness:
  "trim_question_mark ''/users?'' = ''/users''
   \<and> trim_question_mark ''/users??'' = ''/users?''
   \<and> trim_question_mark ''/users?id=1'' = ''/users?id=1''
   \<and> take 5 (effects (snd (start_webpage_rendering_server (Some ''production'') node_koa
        rejecting plain_options (request ''/users?'')))) =
       [Increment ''request.count'', Increment ''request.url.count./users'',
        Started ''request'', Started ''request.url.time./users'',
        Increment ''request.url.hits./users'']"
proof -
  have a: "trim_question_mark ''/users?'' = ''/users''"
    using metric_key_is_trimmed_path [where p = "''/users?''", THEN conjunct1] by simp
  have b: "trim_question_mark ''/users??'' = ''/users?''"
    using metric_key_is_trimmed_path [where q = "''/users''", THEN conjunct2, THEN conjunct1]
    by simp
  have c: "trim_question_mark ''/users?id=1'' = ''/users?id=1''"
    using metric_key_is_trimmed_path [where p = "''/users?id=1''", THEN conjunct1] by simp
  have d: "take 5 (effects (snd (start_webpage_rendering_server (Some ''production'') node_koa
        rejecting plain_options (request ''/users?'')))) =
       [Increment ''request.count'', Increment ''request.url.count./users'',
        Started ''request'', Started ''request.url.time./users'',
        Increment ''request.url.hits./users'']"
    using metric_key_is_trimmed_path [where p = "''/users?''" and opts = plain_options
        and node_env = "Some ''production''" and rt = node_koa and mods = rejecting,
        THEN conjunct2, THEN conjunct2, THEN conjunct2, THEN conjunct2, THEN conjunct2]
    by simp
  show ?thesis
    using a b c d by simp
qed

subsection \<open>The outer error boundary\<close>

lemma placeholder_simps [simp]:
  "custom_middleware (plain_options\<lparr>middleware := Some ms\<rparr>) = ms"
  "catch (plain_options\<lparr>middleware := Some ms\<rparr>) = None"
  "log (plain_options\<lparr>middleware := Some ms\<rparr>) = False"
  "print_error (plain_options\<lparr>middleware := Some ms\<rparr>) = Undefined"
  by (simp_all add: plain_options_def custom_middleware_def)

lemma placeholder_downstream:
  "downstream rt mods (plain_options\<lparr>middleware := Some [placeholder_body]\<rparr>) s =
     isomorphic_rendering rt mods (plain_options\<lparr>middleware := Some [placeholder_body]\<rparr>)
       (perform (Set_body (String ''Loading'')) s)"
  by (simp add: downstream_def placeholder_body_def)

text \<open>
  C4 as the specification states it: with \<open>NODE_ENV=production\<close>, for the error
  \<open>forbidden\<close> that reaches the outer boundary the body of the response would be its
  message \<open>Forbidden\<close>. The boundary assigns the message to \<open>ctx.message\<close> and writes no
  body, so that Koa sends the message as the body only when nothing else has written one:
  behind a custom middleware that has written a body, that body is sent.
\<close>

theorem production_error_body_counterexample:
  "Increment ''requests.errors'' \<in> set (effects (snd (start_webpage_rendering_server
      (Some ''production'') node_koa rejecting
      (plain_options\<lparr>middleware := Some [placeholder_body]\<rparr>) (request ''/secure''))))
   \<and> ctx_message (effects (snd (start_webpage_rendering_server
      (Some ''production'') node_koa rejecting
      (plain_options\<lparr>middleware := Some [placeholder_body]\<rparr>) (request ''/secure'')))) =
       Some (String ''Forbidden'')
   \<and> sent_body (effects (snd (start_webpage_rendering_server
      (Some ''production'') node_koa rejecting
      (plain_options\<lparr>middleware := Some [placeholder_body]\<rparr>) (request ''/secure'')))) =
       Some (String ''Loading'')
   \<and> sent_body (effects (snd (start_webpage_rendering_server
      (Some ''production'') node_koa rejecting
      (plain_options\<lparr>middleware := Some [placeholder_body]\<rparr>) (request ''/secure'')))) \<noteq>
       Some (String ''Forbidden'')"
proof -
  have "effects (snd (start_webpage_rendering_server
      (Some ''production'') node_koa rejecting
      (plain_options\<lparr>middleware := Some [placeholder_body]\<rparr>) (request ''/secure''))) =
    [Increment ''request.count'', Increment ''request.url.count./secure'',
     Started ''request'', Started ''request.url.time./secure'',
     Set_body (String ''Loading''),
     Increment ''request.url.hits./secure'', Increment ''requests.errors.handled'',
     Increment ''requests.errors'',
     Console_log (String ''[react-isomorphic-render] Webpage rendering server error''),
     Set_status (Number 403), Set_message (String ''Forbidden''),
     Finished ''request'', Finished ''request.url.time./secure'']"
    by (simp add: server_unfold handle_errors_def placeholder_downstream
        rendering_rejected rendering_failed_no_handler development_mode_def on_error_def
        respond_with_error_answerable effects_begin_request effects_end_request
        js_or_def Let_def)
  then show ?thesis
    by (simp add: ctx_message_def sent_body_def bodiless_status.simps ctx_status_def)
qed

text \<open>
  C4, amended. Outside the development mode, for every error object that reaches the
  outer boundary and whose \<open>status\<close> is not a number or is an HTTP status (an integer from
  100 to 999): nothing is thrown further; the status of the response is the \<open>status\<close> of
  the error when that is a number, and 500 otherwise; the status message of the response
  is the \<open>message\<close> of the error, or \<open>Internal error\<close> when that is empty or missing; the
  boundary writes no body and no content type, so that the stack of the error is in
  nothing it writes; and the body that is sent is that message when no body and no
  redirect was written for the request before and the status is one that carries a body
  (not 204, 205 or 304, and not below 200).
\<close>

theorem production_error_response:
  assumes "\<not> development_mode node_env"
    and "downstream rt mods opts (begin_request (trim_question_mark (originalUrl s)) s)
           = (Some error, s')"
    and "answerable error"
  shows "fst (start_webpage_rendering_server node_env rt mods opts s) = None
    \<and> effects (snd (start_webpage_rendering_server node_env rt mods opts s)) =
        effects s'
        @ [Increment ''requests.errors'',
           Console_log (String ''[react-isomorphic-render] Webpage rendering server error'')]
        @ (if log opts then [Log_error error] else [])
        @ [Set_status (if typeof_number (error_status error) then error_status error
                       else Number 500),
           Set_message (if truthy (error_message error) then error_message error
                        else String ''Internal error''),
           Finished ''request'',
           Finished (''request.url.time.'' @ trim_question_mark (originalUrl s))]
    \<and> ctx_status (effects (snd (start_webpage_rendering_server node_env rt mods opts s))) =
        Some (if typeof_number (error_status error) then error_status error else Number 500)
    \<and> ctx_message (effects (snd (start_webpage_rendering_server node_env rt mods opts s))) =
        Some (if truthy (error_message error) then error_message error
              else String ''Internal error'')
    \<and> ctx_body (effects (snd (start_webpage_rendering_server node_env rt mods opts s))) =
        ctx_body (effects s')
    \<and> ctx_type (effects (snd (start_webpage_rendering_server node_env rt mods opts s))) =
        ctx_type (effects s')
    \<and> (\<not> list_ex writes_body (effects s') \<longrightarrow>
        \<not> bodiless_status (Some (if typeof_number (error_status error) then error_status error
                               else Number 500)) \<longrightarrow>
        sent_body (effects (snd (start_webpage_rendering_server node_env rt mods opts s))) =
          Some (if truthy (error_message error) then error_message error
                else String ''Internal error''))"
proof -
  let ?r = "start_webpage_rendering_server node_env rt mods opts s"
  let ?v = "if typeof_number (error_status error) then error_status error else Number 500"
  let ?m = "if truthy (error_message error) then error_message error
            else String ''Internal error''"
  have o: "on_error False rt mods opts error s' =
      respond_with_error rt opts error (perform (Increment ''requests.errors'') s')"
    by (simp add: on_error_def Let_def)
  have r: "?r = (fst (on_error False rt mods opts error s'),
      end_request (trim_question_mark (originalUrl s)) (snd (on_error False rt mods opts error s')))"
    using server_on_throw [OF assms(2), of node_env] assms(1) by simp
  have f: "fst ?r = None"
    using assms(3) by (simp add: r o respond_with_error_answerable)
  have e: "effects (snd ?r) =
        effects s'
        @ [Increment ''requests.errors'',
           Console_log (String ''[react-isomorphic-render] Webpage rendering server error'')]
        @ (if log opts then [Log_error error] else [])
        @ [Set_status ?v, Set_message ?m,
           Finished ''request'',
           Finished (''request.url.time.'' @ trim_question_mark (originalUrl s))]"
    using assms(3)
    by (simp add: r o effects_end_request effects_respond_with_error js_or_def)
  have st: "ctx_status (effects (snd ?r)) = Some ?v"
    unfolding e by (simp add: ctx_append)
  have me: "ctx_message (effects (snd ?r)) = Some ?m"
    unfolding e by (simp add: ctx_append)
  have bo: "ctx_body (effects (snd ?r)) = ctx_body (effects s')"
    unfolding e by (simp add: ctx_append)
  have ty: "ctx_type (effects (snd ?r)) = ctx_type (effects s')"
    unfolding e by (simp add: ctx_append)
  have wr: "list_ex writes_body (effects (snd ?r)) = list_ex writes_body (effects s')"
    unfolding e by simp
  have se: "sent_body (effects (snd ?r)) = Some ?m"
    if "\<not> list_ex writes_body (effects s')" "\<not> bodiless_status (Some ?v)"
    using that by (simp only: sent_body_def st me wr if_False)
  show ?thesis
    using f e st me bo ty se by blast
qed

theorem production_error_response_witness:
  "ctx_status (effects (snd (start_webpage_rendering_server (Some ''production'') node_koa
      rejecting plain_options (request ''/secure'')))) = Some (Number 403)
   \<and> ctx_message (effects (snd (start_webpage_rendering_server (Some ''production'') node_koa
      rejecting plain_options (request ''/secure'')))) = Some (String ''Forbidden'')
   \<and> sent_body (effects (snd (start_webpage_rendering_server (Some ''production'') node_koa
      rejecting plain_options (request ''/secure'')))) = Some (String ''Forbidden'')"
proof -
  have d: "\<not> development_mode (Some ''production'')"
    by (simp add: development_mode_def)
  have n: "downstream node_koa rejecting plain_options
      (begin_request (trim_question_mark (originalUrl (request ''/secure'')))
        (request ''/secure'')) =
     (Some forbidden,
      perform (Increment ''requests.errors.handled'')
        (perform (Increment (''request.url.hits.'' @ trim_question_mark
            (originalUrl (begin_request (trim_question_mark (originalUrl (request ''/secure'')))
              (request ''/secure'')))))
          (begin_request (trim_question_mark (originalUrl (request ''/secure'')))
            (request ''/secure''))))"
    by (rule rejecting_downstream)
  have a: "answerable forbidden"
    by simp
  note t = production_error_response [OF d n a]
  have "ctx_status (effects (snd (start_webpage_rendering_server (Some ''production'') node_koa
      rejecting plain_options (request ''/secure'')))) = Some (Number 403)"
    using t [THEN conjunct2, THEN conjunct2, THEN conjunct1] by simp
  moreover have "ctx_message (effects (snd (start_webpage_rendering_server
      (Some ''production'') node_koa rejecting plain_options (request ''/secure'')))) =
      Some (String ''Forbidden'')"
    using t [THEN conjunct2, THEN conjunct2, THEN conjunct2, THEN conjunct1] by simp
  moreover have "sent_body (effects (snd (start_webpage_rendering_server
      (Some ''production'') node_koa rejecting plain_options (request ''/secure'')))) =
      Some (String ''Forbidden'')"
    using t [THEN conjunct2, THEN conjunct2, THEN conjunct2, THEN conjunct2, THEN conjunct2,
        THEN conjunct2]
    by (simp add: effects_begin_request bodiless_status.simps)
  ultimately show ?thesis by simp
qed



lemma respond_with_error_keeps_effects:
  "e \<in> set (effects s) \<Longrightarrow> e \<in> set (effects (snd (respond_with_error rt opts error s)))"
  using respond_with_error_extends [of rt opts error s] by auto

lemma stack_trace_failed_logs:
  "Console_log (String ''(couldn't render error stack trace)'')
     \<in> set (effects (snd (stack_trace_failed rt opts error inner s)))"
  by (cases "nullish inner")
    (simp_all add: stack_trace_failed_def Let_def respond_with_error_keeps_effects)








text \<open>
  C10. The server is in the development mode whenever \<open>NODE_ENV\<close> is not exactly
  \<open>production\<close>, also when it is not set; the mode is fixed when the server is made. In
  that mode the boundary calls \<open>render_stack_trace\<close> for an error that reaches it: a page
  it returns is the body of the response (when Koa accepts the status of the page;
  otherwise the failure shows on the console), and a failure of it shows on the console.
  With \<open>NODE_ENV=production\<close> what the server does is independent of \<open>render_stack_trace\<close>.
\<close>

theorem development_unless_production:
  "development_mode node_env = (node_env \<noteq> Some ''production'')
   \<and> development_mode None
   \<and> start_webpage_rendering_server node_env rt mods opts =
       (\<lambda>s. handle_errors (node_env \<noteq> Some ''production'') rt mods opts s
              (downstream rt mods opts))
   \<and> (node_env \<noteq> Some ''production'' \<longrightarrow>
        downstream rt mods opts (begin_request (trim_question_mark (originalUrl s)) s)
          = (Some error, s') \<longrightarrow>
        render_stack_trace mods error (print_error opts) = Inr page \<longrightarrow>
        truthy (response_body page) \<longrightarrow>
        (if valid_status (if truthy (response_status page) then response_status page
                          else Number 500)
         then ctx_body (effects (snd (start_webpage_rendering_server node_env rt mods opts s))) =
                Some (response_body page)
         else Console_log (String ''(couldn't render error stack trace)'')
                \<in> set (effects (snd (start_webpage_rendering_server node_env rt mods opts s)))))
   \<and> (node_env \<noteq> Some ''production'' \<longrightarrow>
        downstream rt mods opts (begin_request (trim_question_mark (originalUrl s)) s)
          = (Some error, s') \<longrightarrow>
        render_stack_trace mods error (print_error opts) = Inl inner \<longrightarrow>
        Console_log (String ''(couldn't render error stack trace)'')
          \<in> set (effects (snd (start_webpage_rendering_server node_env rt mods opts s))))
   \<and> (node_env = Some ''production'' \<longrightarrow>
        start_webpage_rendering_server node_env rt (mods\<lparr>render_stack_trace := r1\<rparr>) opts s =
        start_webpage_rendering_server node_env rt (mods\<lparr>render_stack_trace := r2\<rparr>) opts s)"
proof (intro conjI impI)
  show "development_mode node_env = (node_env \<noteq> Some ''production'')"
    by (simp add: development_mode_def)
  show "development_mode None"
    by (simp add: development_mode_def)
  show "start_webpage_rendering_server node_env rt mods opts =
       (\<lambda>s. handle_errors (node_env \<noteq> Some ''production'') rt mods opts s
              (downstream rt mods opts))"
    by (rule ext) (simp add: server_unfold development_mode_def)
next
  let ?v = "if truthy (response_status page) then response_status page else Number 500"
  let ?s1 = "perform (Increment ''requests.errors'') s'"
  assume dev: "node_env \<noteq> Some ''production''"
    and thrown: "downstream rt mods opts (begin_request (trim_question_mark (originalUrl s)) s)
          = (Some error, s')"
    and page: "render_stack_trace mods error (print_error opts) = Inr page"
      "truthy (response_body page)"
  from dev have d: "development_mode node_env"
    by (simp add: development_mode_def)
  have v: "js_or (response_status page) (Number 500) = ?v"
    by (simp add: js_or_def)
  show "if valid_status ?v
         then ctx_body (effects (snd (start_webpage_rendering_server node_env rt mods opts s))) =
                Some (response_body page)
         else Console_log (String ''(couldn't render error stack trace)'')
                \<in> set (effects (snd (start_webpage_rendering_server node_env rt mods opts s)))"
  proof (cases "valid_status ?v")
    case True
    then have "on_error True rt mods opts error s' =
        (None, perform (Set_type ''html'')
           (perform (Set_body (response_body page)) (perform (Set_status ?v) ?s1)))"
      using page by (simp add: on_error_def Let_def v assign_status_valid)
    with True d show ?thesis
      by (simp add: server_on_throw [OF thrown] effects_end_request ctx_append)
  next
    case False
    then have "on_error True rt mods opts error s' =
        stack_trace_failed rt opts error (status_error rt ?v) ?s1"
      using page by (simp add: on_error_def Let_def v assign_status_refused)
    with False d show ?thesis
      by (simp add: server_on_throw [OF thrown] effects_end_request stack_trace_failed_logs)
  qed
next
  assume dev: "node_env \<noteq> Some ''production''"
    and thrown: "downstream rt mods opts (begin_request (trim_question_mark (originalUrl s)) s)
          = (Some error, s')"
    and inner: "render_stack_trace mods error (print_error opts) = Inl inner"
  from dev have d: "development_mode node_env"
    by (simp add: development_mode_def)
  have "on_error True rt mods opts error s' =
      stack_trace_failed rt opts error inner (perform (Increment ''requests.errors'') s')"
    using inner by (simp add: on_error_def Let_def)
  with d show "Console_log (String ''(couldn't render error stack trace)'')
          \<in> set (effects (snd (start_webpage_rendering_server node_env rt mods opts s)))"
    by (simp add: server_on_throw [OF thrown] effects_end_request stack_trace_failed_logs)
next
  assume prod: "node_env = Some ''production''"
  have iso: "isomorphic_rendering rt (mods\<lparr>render_stack_trace := r\<rparr>) opts =
      isomorphic_rendering rt mods opts" for r
    by (rule ext) (simp add: isomorphic_rendering_def)
  have down: "downstream rt (mods\<lparr>render_stack_trace := r\<rparr>) opts = downstream rt mods opts"
    for r
    by (simp add: downstream_def iso)
  have err: "on_error False rt (mods\<lparr>render_stack_trace := r\<rparr>) opts e t =
      on_error False rt mods opts e t" for r e t
    by (simp add: on_error_def)
  have "start_webpage_rendering_server node_env rt (mods\<lparr>render_stack_trace := r\<rparr>) opts s =
      handle_errors False rt mods opts s (downstream rt mods opts)" for r
    using prod
    by (simp add: server_unfold development_mode_def down handle_errors_def err Let_def
        split: prod.splits option.splits)
  then show "start_webpage_rendering_server node_env rt (mods\<lparr>render_stack_trace := r1\<rparr>)
        opts s =
      start_webpage_rendering_server node_env rt (mods\<lparr>render_stack_trace := r2\<rparr>) opts s"
    by simp
qed

theorem development_unless_production_witness:
  "development_mode (Some ''prod'')
   \<and> ctx_body (effects (snd (start_webpage_rendering_server (Some ''prod'') node_koa
        rejecting plain_options (request ''/secure'')))) =
       Some (String ''<html>Error: Forbidden at preload</html>'')"
proof -
  have n: "downstream node_koa rejecting plain_options
      (begin_request (trim_question_mark (originalUrl (request ''/secure'')))
        (request ''/secure'')) =
     (Some forbidden,
      perform (Increment ''requests.errors.handled'')
        (perform (Increment (''request.url.hits.'' @ trim_question_mark ''/secure''))
          (begin_request (trim_question_mark ''/secure'') (request ''/secure''))))"
    by (simp add: rejecting_downstream)
  have p: "render_stack_trace rejecting forbidden (print_error plain_options) = Inr stack_page"
    by simp
  have b: "truthy (response_body stack_page)"
    by (simp add: stack_page_def)
  have v: "valid_status (if truthy (response_status stack_page) then response_status stack_page
      else Number 500)"
    by (simp add: stack_page_def)
  have e: "Some ''prod'' \<noteq> Some ''production''"
    by simp
  note t = development_unless_production [where node_env = "Some ''prod''" and rt = node_koa
      and mods = rejecting and opts = plain_options and s = "request ''/secure''"
      and error = forbidden and page = stack_page
      and s' = "perform (Increment ''requests.errors.handled'')
        (perform (Increment (''request.url.hits.'' @ trim_question_mark ''/secure''))
          (begin_request (trim_question_mark ''/secure'') (request ''/secure'')))"]
  have d: "development_mode (Some ''prod'')"
    using t e by blast
  have c: "ctx_body (effects (snd (start_webpage_rendering_server (Some ''prod'') node_koa
        rejecting plain_options (request ''/secure'')))) = Some (response_body stack_page)"
    using t [THEN conjunct2, THEN conjunct2, THEN conjunct2, THEN conjunct1,
        THEN mp, OF e, THEN mp, OF n, THEN mp, OF p, THEN mp, OF b] v
    by simp
  show ?thesis
    using d c by (simp add: stack_page_def)
qed

subsection \<open>The result of \<open>render\<close>\<close>

text \<open>
  C5. For every result of \<open>render\<close> that has no \<open>redirect\<close>: when its \<open>status\<close> is an HTTP
  status (an integer from 100 to 999), the rendering middleware assigns that value to the
  status of the response; when it has no \<open>status\<close> (or one that \<open>if (status)\<close> takes for
  none), it does not assign the status of the response, which stays what it was; either
  way it assigns \<open>content\<close> to the body of the response, and throws nothing. On a server
  with no custom middleware this is the response of the request.
\<close>

theorem content_and_status_written:
  assumes "render mods (originalUrl s) = Inr result"
    and "\<not> truthy (redirect result)"
    and "\<not> truthy (status result) \<or> valid_status (status result)"
  shows "fst (isomorphic_rendering rt mods opts s) = None
    \<and> effects (snd (isomorphic_rendering rt mods opts s)) =
        effects s
        @ [Increment (''request.url.hits.'' @ trim_question_mark (originalUrl s))]
        @ (if truthy (status result) then [Set_status (status result)] else [])
        @ [Set_body (content result)]
    \<and> ctx_status (effects (snd (isomorphic_rendering rt mods opts s))) =
        (if truthy (status result) then Some (status result) else ctx_status (effects s))
    \<and> ctx_body (effects (snd (isomorphic_rendering rt mods opts s))) = Some (content result)
    \<and> (custom_middleware opts = [] \<longrightarrow>
        fst (start_webpage_rendering_server node_env rt mods opts s) = None
        \<and> effects (snd (start_webpage_rendering_server node_env rt mods opts s)) =
            effects s
            @ [Increment ''request.count'',
               Increment (''request.url.count.'' @ trim_question_mark (originalUrl s)),
               Started ''request'',
               Started (''request.url.time.'' @ trim_question_mark (originalUrl s)),
               Increment (''request.url.hits.'' @ trim_question_mark (originalUrl s))]
            @ (if truthy (status result) then [Set_status (status result)] else [])
            @ [Set_body (content result),
               Finished ''request'',
               Finished (''request.url.time.'' @ trim_question_mark (originalUrl s))]
        \<and> ctx_status (effects (snd (start_webpage_rendering_server node_env rt mods opts s))) =
            (if truthy (status result) then Some (status result) else ctx_status (effects s))
        \<and> ctx_body (effects (snd (start_webpage_rendering_server node_env rt mods opts s))) =
            Some (content result))"
proof -
  let ?i = "isomorphic_rendering rt mods opts s"
  let ?r = "start_webpage_rendering_server node_env rt mods opts s"
  let ?url = "trim_question_mark (originalUrl s)"
  note c = rendering_content [OF assms, of rt opts]
  have i: "effects (snd ?i) =
        effects s
        @ [Increment (''request.url.hits.'' @ ?url)]
        @ (if truthy (status result) then [Set_status (status result)] else [])
        @ [Set_body (content result)]"
    by (simp add: c)
  have i0: "fst ?i = None"
    by (simp add: c)
  have i1: "ctx_status (effects (snd ?i)) =
      (if truthy (status result) then Some (status result) else ctx_status (effects s))"
    unfolding i by (simp add: ctx_append)
  have i2: "ctx_body (effects (snd ?i)) = Some (content result)"
    unfolding i by (simp add: ctx_append)
  have server: "fst ?r = None
        \<and> effects (snd ?r) =
            effects s
            @ [Increment ''request.count'',
               Increment (''request.url.count.'' @ ?url),
               Started ''request'',
               Started (''request.url.time.'' @ ?url),
               Increment (''request.url.hits.'' @ ?url)]
            @ (if truthy (status result) then [Set_status (status result)] else [])
            @ [Set_body (content result),
               Finished ''request'',
               Finished (''request.url.time.'' @ ?url)]
        \<and> ctx_status (effects (snd ?r)) =
            (if truthy (status result) then Some (status result) else ctx_status (effects s))
        \<and> ctx_body (effects (snd ?r)) = Some (content result)"
    if plain: "custom_middleware opts = []"
  proof -
    have d: "downstream rt mods opts (begin_request ?url s) =
       (None,
        perform (Set_body (content result))
          (if truthy (status result)
           then perform (Set_status (status result))
                  (perform (Increment (''request.url.hits.'' @ ?url)) (begin_request ?url s))
           else perform (Increment (''request.url.hits.'' @ ?url)) (begin_request ?url s)))"
      using rendering_content [of mods "begin_request ?url s" result rt opts] assms
      by (simp add: downstream_plain [OF plain])
    have r: "?r = (None, end_request ?url
        (perform (Set_body (content result))
          (if truthy (status result)
           then perform (Set_status (status result))
                  (perform (Increment (''request.url.hits.'' @ ?url)) (begin_request ?url s))
           else perform (Increment (''request.url.hits.'' @ ?url)) (begin_request ?url s))))"
      by (rule server_on_return [OF d])
    have e: "effects (snd ?r) =
          effects s
          @ [Increment ''request.count'',
             Increment (''request.url.count.'' @ ?url),
             Started ''request'',
             Started (''request.url.time.'' @ ?url),
             Increment (''request.url.hits.'' @ ?url)]
          @ (if truthy (status result) then [Set_status (status result)] else [])
          @ [Set_body (content result),
             Finished ''request'',
             Finished (''request.url.time.'' @ ?url)]"
      by (simp add: r effects_end_request effects_begin_request)
    have "fst ?r = None" by (simp add: r)
    moreover have "ctx_status (effects (snd ?r)) =
        (if truthy (status result) then Some (status result) else ctx_status (effects s))"
      unfolding e by (simp add: ctx_append)
    moreover have "ctx_body (effects (snd ?r)) = Some (content result)"
      unfolding e by (simp add: ctx_append)
    ultimately show ?thesis using e by simp
  qed
  show ?thesis
    using i i0 i1 i2 server by blast
qed

theorem content_and_status_written_witness:
  "ctx_status (effects (snd (start_webpage_rendering_server (Some ''production'') node_koa
      (resolving \<lparr>status = Number 200, content = String ''<html>Users</html>'',
                  redirect = Undefined\<rparr>)
      plain_options (request ''/users?'')))) = Some (Number 200)
   \<and> ctx_body (effects (snd (start_webpage_rendering_server (Some ''production'') node_koa
      (resolving \<lparr>status = Number 200, content = String ''<html>Users</html>'',
                  redirect = Undefined\<rparr>)
      plain_options (request ''/users?'')))) = Some (String ''<html>Users</html>'')
   \<and> ctx_status (effects (snd (start_webpage_rendering_server (Some ''production'') node_koa
      (resolving \<lparr>status = Undefined, content = String ''<html>Users</html>'',
                  redirect = Undefined\<rparr>)
      plain_options (request ''/users?'')))) = None"
proof -
  have c: "custom_middleware plain_options = []"
    by simp
  have a: "render (resolving \<lparr>status = Number 200, content = String ''<html>Users</html>'',
      redirect = Undefined\<rparr>) (originalUrl (request ''/users?'')) =
      Inr \<lparr>status = Number 200, content = String ''<html>Users</html>'', redirect = Undefined\<rparr>"
    by simp
  have b: "\<not> truthy (redirect \<lparr>status = Number 200, content = String ''<html>Users</html>'',
      redirect = Undefined\<rparr>)"
    by simp
  have v: "\<not> truthy (status \<lparr>status = Number 200, content = String ''<html>Users</html>'',
        redirect = Undefined\<rparr>)
      \<or> valid_status (status \<lparr>status = Number 200, content = String ''<html>Users</html>'',
        redirect = Undefined\<rparr>)"
    by simp
  have a': "render (resolving \<lparr>status = Undefined, content = String ''<html>Users</html>'',
      redirect = Undefined\<rparr>) (originalUrl (request ''/users?'')) =
      Inr \<lparr>status = Undefined, content = String ''<html>Users</html>'', redirect = Undefined\<rparr>"
    by simp
  have b': "\<not> truthy (redirect \<lparr>status = Undefined, content = String ''<html>Users</html>'',
      redirect = Undefined\<rparr>)"
    by simp
  have v': "\<not> truthy (status \<lparr>status = Undefined, content = String ''<html>Users</html>'',
        redirect = Undefined\<rparr>)
      \<or> valid_status (status \<lparr>status = Undefined, content = String ''<html>Users</html>'',
        redirect = Undefined\<rparr>)"
    by simp
  note t = content_and_status_written [OF a b v,
      where opts = plain_options and node_env = "Some ''production''" and rt = node_koa,
      THEN conjunct2, THEN conjunct2, THEN conjunct2, THEN conjunct2, THEN mp, OF c]
  note t' = content_and_status_written [OF a' b' v',
      where opts = plain_options and node_env = "Some ''production''" and rt = node_koa,
      THEN conjunct2, THEN conjunct2, THEN conjunct2, THEN conjunct2, THEN mp, OF c]
  show ?thesis
    using t [THEN conjunct2, THEN conjunct2] t' [THEN conjunct2, THEN conjunct2, THEN conjunct1]
    by simp
qed

text \<open>
  C6. For every result of \<open>render\<close> that has a \<open>redirect\<close> (a value that \<open>if (redirect)\<close>
  accepts, as every url that is not empty), the rendering middleware redirects to exactly
  that value and returns at once: it assigns neither the status nor the body of the
  response, whatever \<open>status\<close> and \<open>content\<close> the result has. On a server with no custom
  middleware the redirect is all that is done to the response of the request.
\<close>

theorem redirect_short_circuits:
  assumes "render mods (originalUrl s) = Inr result"
    and "truthy (redirect result)"
  shows "fst (isomorphic_rendering rt mods opts s) = None
    \<and> effects (snd (isomorphic_rendering rt mods opts s)) =
        effects s
        @ [Increment (''request.url.hits.'' @ trim_question_mark (originalUrl s)),
           Redirect (redirect result)]
    \<and> (custom_middleware opts = [] \<longrightarrow>
        fst (start_webpage_rendering_server node_env rt mods opts s) = None
        \<and> effects (snd (start_webpage_rendering_server node_env rt mods opts s)) =
            effects s
            @ [Increment ''request.count'',
               Increment (''request.url.count.'' @ trim_question_mark (originalUrl s)),
               Started ''request'',
               Started (''request.url.time.'' @ trim_question_mark (originalUrl s)),
               Increment (''request.url.hits.'' @ trim_question_mark (originalUrl s)),
               Redirect (redirect result),
               Finished ''request'',
               Finished (''request.url.time.'' @ trim_question_mark (originalUrl s))]
        \<and> ctx_status (effects (snd (start_webpage_rendering_server node_env rt mods opts s))) =
            ctx_status (effects s)
        \<and> ctx_body (effects (snd (start_webpage_rendering_server node_env rt mods opts s))) =
            ctx_body (effects s))"
proof -
  let ?i = "isomorphic_rendering rt mods opts s"
  let ?r = "start_webpage_rendering_server node_env rt mods opts s"
  let ?url = "trim_question_mark (originalUrl s)"
  note c = rendering_redirect [OF assms, of rt opts]
  have i: "effects (snd ?i) =
        effects s @ [Increment (''request.url.hits.'' @ ?url), Redirect (redirect result)]"
    by (simp add: c)
  have i0: "fst ?i = None"
    by (simp add: c)
  have server: "fst ?r = None
        \<and> effects (snd ?r) =
            effects s
            @ [Increment ''request.count'',
               Increment (''request.url.count.'' @ ?url),
               Started ''request'',
               Started (''request.url.time.'' @ ?url),
               Increment (''request.url.hits.'' @ ?url),
               Redirect (redirect result),
               Finished ''request'',
               Finished (''request.url.time.'' @ ?url)]
        \<and> ctx_status (effects (snd ?r)) = ctx_status (effects s)
        \<and> ctx_body (effects (snd ?r)) = ctx_body (effects s)"
    if plain: "custom_middleware opts = []"
  proof -
    have d: "downstream rt mods opts (begin_request ?url s) =
       (None,
        perform (Redirect (redirect result))
          (perform (Increment (''request.url.hits.'' @ ?url)) (begin_request ?url s)))"
      using rendering_redirect [of mods "begin_request ?url s" result rt opts] assms
      by (simp add: downstream_plain [OF plain])
    have r: "?r = (None, end_request ?url
        (perform (Redirect (redirect result))
          (perform (Increment (''request.url.hits.'' @ ?url)) (begin_request ?url s))))"
      by (rule server_on_return [OF d])
    have e: "effects (snd ?r) =
          effects s
          @ [Increment ''request.count'',
             Increment (''request.url.count.'' @ ?url),
             Started ''request'',
             Started (''request.url.time.'' @ ?url),
             Increment (''request.url.hits.'' @ ?url),
             Redirect (redirect result),
             Finished ''request'',
             Finished (''request.url.time.'' @ ?url)]"
      by (simp add: r effects_end_request effects_begin_request)
    have "fst ?r = None" by (simp add: r)
    moreover have "ctx_status (effects (snd ?r)) = ctx_status (effects s)"
      unfolding e by (simp add: ctx_append)
    moreover have "ctx_body (effects (snd ?r)) = ctx_body (effects s)"
      unfolding e by (simp add: ctx_append)
    ultimately show ?thesis using e by simp
  qed
  show ?thesis
    using i i0 server by blast
qed

theorem redirect_short_circuits_witness:
  "effects (snd (start_webpage_rendering_server (Some ''production'') node_koa
      (resolving \<lparr>status = Number 200, content = String ''<html>Old</html>'',
                  redirect = String ''/new-page''\<rparr>)
      plain_options (request ''/old-page''))) =
     [Increment ''request.count'', Increment ''request.url.count./old-page'',
      Started ''request'', Started ''request.url.time./old-page'',
      Increment ''request.url.hits./old-page'',
      Redirect (String ''/new-page''),
      Finished ''request'', Finished ''request.url.time./old-page'']"
proof -
  have a: "render (resolving \<lparr>status = Number 200, content = String ''<html>Old</html>'',
                  redirect = String ''/new-page''\<rparr>) (originalUrl (request ''/old-page'')) =
      Inr \<lparr>status = Number 200, content = String ''<html>Old</html>'',
           redirect = String ''/new-page''\<rparr>"
    by simp
  have b: "truthy (redirect \<lparr>status = Number 200, content = String ''<html>Old</html>'',
                  redirect = String ''/new-page''\<rparr>)"
    by simp
  have c: "custom_middleware plain_options = []"
    by simp
  show ?thesis
    using redirect_short_circuits [OF a b,
        where opts = plain_options and node_env = "Some ''production''" and rt = node_koa,
        THEN conjunct2, THEN conjunct2, THEN mp, OF c, THEN conjunct2, THEN conjunct1]
    by simp
qed

subsection \<open>A rejected \<open>render\<close>\<close>

text \<open>
  C2 as the specification states it: with an error handler configured, the error of a
  rejected \<open>render\<close> would never reach the outer boundary. A handler that throws the error
  it is given sends it there: the boundary counts it and writes the response.
\<close>

theorem rethrown_error_counterexample:
  "effects (snd (start_webpage_rendering_server (Some ''production'') node_koa rejecting
      (plain_options\<lparr>catch := Some rethrowing_handler\<rparr>) (request ''/secure''))) =
     [Increment ''request.count'', Increment ''request.url.count./secure'',
      Started ''request'', Started ''request.url.time./secure'',
      Increment ''request.url.hits./secure'', Increment ''requests.errors.handled'',
      Increment ''requests.errors'',
      Console_log (String ''[react-isomorphic-render] Webpage rendering server error''),
      Set_status (Number 403), Set_message (String ''Forbidden''),
      Finished ''request'', Finished ''request.url.time./secure'']"
  by (simp add: server_unfold handle_errors_def downstream_plain rendering_rejected
      rendering_failed_handler rethrowing_handler_def development_mode_def on_error_def
      respond_with_error_answerable effects_begin_request effects_end_request js_or_def Let_def)

text \<open>
  C2, amended. In every configuration, when \<open>render\<close> is rejected the counter
  \<open>requests.errors.handled\<close> is incremented, and then: with no error handler, the
  rendering middleware throws the error unchanged; with an error handler, the handler is
  called with the error, the url and the redirecting function, and what it does is what the
  rendering middleware does: it returns when the handler returns, and throws what the
  handler throws. The outer boundary handles what the chain below it throws and nothing
  else: when the chain returns, the boundary only stops the timers. So on a server with no
  custom middleware the outer boundary is not reached when the handler returns, and is
  reached with what the handler throws when it throws, and with the error itself when
  there is no handler.
\<close>

theorem rejection_handling:
  fixes s t :: world
  defines "url \<equiv> trim_question_mark (originalUrl s)"
  defines "s2 \<equiv> perform (Increment ''requests.errors.handled'')
                  (perform (Increment (''request.url.hits.'' @ url)) s)"
  defines "key \<equiv> trim_question_mark (originalUrl t)"
  defines "t2 \<equiv> perform (Increment ''requests.errors.handled'')
                  (perform (Increment (''request.url.hits.'' @ key)) (begin_request key t))"
  assumes "render mods (originalUrl s) = Inl error"
  shows "effects s2 =
        effects s
        @ [Increment (''request.url.hits.'' @ url), Increment ''requests.errors.handled'']
    \<and> (catch opts = None \<longrightarrow> isomorphic_rendering rt mods opts s = (Some error, s2))
    \<and> (\<forall>h. catch opts = Some h \<longrightarrow>
         isomorphic_rendering rt mods opts s = h error url redirect_to s2)
    \<and> (\<forall>t'. downstream rt mods opts (begin_request key t) = (None, t') \<longrightarrow>
         start_webpage_rendering_server node_env rt mods opts t = (None, end_request key t'))
    \<and> (\<forall>thrown t'. downstream rt mods opts (begin_request key t) = (Some thrown, t') \<longrightarrow>
         start_webpage_rendering_server node_env rt mods opts t =
           (fst (on_error (development_mode node_env) rt mods opts thrown t'),
            end_request key (snd (on_error (development_mode node_env) rt mods opts thrown t'))))
    \<and> (custom_middleware opts = [] \<longrightarrow> render mods (originalUrl t) = Inl error \<longrightarrow>
         (catch opts = None \<longrightarrow>
            start_webpage_rendering_server node_env rt mods opts t =
              (fst (on_error (development_mode node_env) rt mods opts error t2),
               end_request key (snd (on_error (development_mode node_env) rt mods opts error t2))))
         \<and> (\<forall>h t3. catch opts = Some h \<longrightarrow> h error key redirect_to t2 = (None, t3) \<longrightarrow>
            start_webpage_rendering_server node_env rt mods opts t = (None, end_request key t3)
            \<and> effects (snd (start_webpage_rendering_server node_env rt mods opts t)) =
                effects t3 @ [Finished ''request'', Finished (''request.url.time.'' @ key)])
         \<and> (\<forall>h thrown t3. catch opts = Some h \<longrightarrow>
            h error key redirect_to t2 = (Some thrown, t3) \<longrightarrow>
            start_webpage_rendering_server node_env rt mods opts t =
              (fst (on_error (development_mode node_env) rt mods opts thrown t3),
               end_request key
                 (snd (on_error (development_mode node_env) rt mods opts thrown t3)))))"
proof -
  let ?r = "start_webpage_rendering_server node_env rt mods opts t"
  let ?dev = "development_mode node_env"
  have c1: "effects s2 =
        effects s
        @ [Increment (''request.url.hits.'' @ url), Increment ''requests.errors.handled'']"
    by (simp add: s2_def)
  have i: "isomorphic_rendering rt mods opts s =
      rendering_failed opts url error (perform (Increment (''request.url.hits.'' @ url)) s)"
    using rendering_rejected [OF assms(5), of rt opts] by (simp add: url_def)
  have c2: "isomorphic_rendering rt mods opts s = (Some error, s2)" if "catch opts = None"
    using that by (simp add: i rendering_failed_no_handler s2_def)
  have c3: "isomorphic_rendering rt mods opts s = h error url redirect_to s2"
    if "catch opts = Some h" for h
    using that by (simp add: i rendering_failed_handler s2_def)
  have c4: "?r = (None, end_request key t')"
    if "downstream rt mods opts (begin_request key t) = (None, t')" for t'
    using that unfolding key_def by (rule server_on_return)
  have c5: "?r = (fst (on_error ?dev rt mods opts thrown t'),
            end_request key (snd (on_error ?dev rt mods opts thrown t')))"
    if "downstream rt mods opts (begin_request key t) = (Some thrown, t')" for thrown t'
    using that unfolding key_def by (rule server_on_throw)
  have c6: "(catch opts = None \<longrightarrow>
            ?r = (fst (on_error ?dev rt mods opts error t2),
                  end_request key (snd (on_error ?dev rt mods opts error t2))))
         \<and> (\<forall>h t3. catch opts = Some h \<longrightarrow> h error key redirect_to t2 = (None, t3) \<longrightarrow>
            ?r = (None, end_request key t3)
            \<and> effects (snd ?r) =
                effects t3 @ [Finished ''request'', Finished (''request.url.time.'' @ key)])
         \<and> (\<forall>h thrown t3. catch opts = Some h \<longrightarrow>
            h error key redirect_to t2 = (Some thrown, t3) \<longrightarrow>
            ?r = (fst (on_error ?dev rt mods opts thrown t3),
                  end_request key (snd (on_error ?dev rt mods opts thrown t3))))"
    if plain: "custom_middleware opts = []" and rej: "render mods (originalUrl t) = Inl error"
  proof -
    have d: "downstream rt mods opts (begin_request key t) =
        rendering_failed opts key error
          (perform (Increment (''request.url.hits.'' @ key)) (begin_request key t))"
      using rendering_rejected [of mods "begin_request key t" error rt opts] rej
      by (simp add: downstream_plain [OF plain] key_def)
    have a: "?r = (fst (on_error ?dev rt mods opts error t2),
                  end_request key (snd (on_error ?dev rt mods opts error t2)))"
      if "catch opts = None"
      using that by (intro c5) (simp add: d rendering_failed_no_handler t2_def)
    have b: "?r = (None, end_request key t3)
        \<and> effects (snd ?r) =
            effects t3 @ [Finished ''request'', Finished (''request.url.time.'' @ key)]"
      if "catch opts = Some h" "h error key redirect_to t2 = (None, t3)" for h t3
    proof -
      have "?r = (None, end_request key t3)"
        using that by (intro c4) (simp add: d rendering_failed_handler t2_def)
      then show ?thesis by (simp add: effects_end_request)
    qed
    have c: "?r = (fst (on_error ?dev rt mods opts thrown t3),
                  end_request key (snd (on_error ?dev rt mods opts thrown t3)))"
      if "catch opts = Some h" "h error key redirect_to t2 = (Some thrown, t3)" for h thrown t3
      using that by (intro c5) (simp add: d rendering_failed_handler t2_def)
    show ?thesis
      using a b c by blast
  qed
  show ?thesis
    using c1 c2 c3 c4 c5 c6 by blast
qed

theorem rejection_handling_witness:
  "effects (snd (start_webpage_rendering_server (Some ''production'') node_koa rejecting
      (plain_options\<lparr>catch := Some redirecting_handler\<rparr>) (request ''/secure''))) =
     [Increment ''request.count'', Increment ''request.url.count./secure'',
      Started ''request'', Started ''request.url.time./secure'',
      Increment ''request.url.hits./secure'', Increment ''requests.errors.handled'',
      Redirect (String ''/error''),
      Finished ''request'', Finished ''request.url.time./secure'']
   \<and> isomorphic_rendering node_koa rejecting plain_options (request ''/secure'') =
     (Some forbidden,
      perform (Increment ''requests.errors.handled'')
        (perform (Increment ''request.url.hits./secure'') (request ''/secure'')))"
proof -
  have r: "render rejecting (originalUrl (request ''/secure'')) = Inl forbidden"
    by simp
  note a = rejection_handling [OF r, where opts = "plain_options\<lparr>catch := Some redirecting_handler\<rparr>"
      and rt = node_koa and node_env = "Some ''production''" and t = "request ''/secure''",
      THEN conjunct2, THEN conjunct2, THEN conjunct2, THEN conjunct2, THEN conjunct2]
  note b = rejection_handling [OF r, where opts = plain_options and rt = node_koa,
      THEN conjunct2, THEN conjunct1]
  have "effects (snd (start_webpage_rendering_server (Some ''production'') node_koa rejecting
      (plain_options\<lparr>catch := Some redirecting_handler\<rparr>) (request ''/secure''))) =
     [Increment ''request.count'', Increment ''request.url.count./secure'',
      Started ''request'', Started ''request.url.time./secure'',
      Increment ''request.url.hits./secure'', Increment ''requests.errors.handled'',
      Redirect (String ''/error''),
      Finished ''request'', Finished ''request.url.time./secure'']"
    using a
    by (simp add: redirecting_handler_def redirect_to_def effects_begin_request
        effects_end_request)
  moreover have "isomorphic_rendering node_koa rejecting plain_options (request ''/secure'') =
     (Some forbidden,
      perform (Increment ''requests.errors.handled'')
        (perform (Increment ''request.url.hits./secure'') (request ''/secure'')))"
    using b by simp
  ultimately show ?thesis by simp
qed

subsection \<open>One response for a request\<close>

lemma response_actions_append [simp]:
  "response_actions (t @ u) = response_actions t @ response_actions u"
  by (simp add: response_actions_def)

lemma response_actions_on_error:
  "length (response_actions (effects (snd (on_error development rt mods opts error s)))) =
     length (response_actions (effects s))
     + (if fst (on_error development rt mods opts error s) = None then 1 else 0)"
  using on_error_extends [of development rt mods opts error s] by auto

lemma response_actions_begin [simp]:
  "response_actions (effects (begin_request url (request p))) = []"
  by (simp add: effects_begin_request response_actions_def)

text \<open>
  C1 as the specification states it: every request would get exactly one
  response-producing action. With an error handler that only prints the error, a request
  whose \<open>render\<close> is rejected gets none; with a custom middleware that writes a body before
  the page is rendered, a request gets two.
\<close>

theorem response_actions_counterexample:
  "response_actions (effects (snd (start_webpage_rendering_server (Some ''production'')
      node_koa rejecting (plain_options\<lparr>catch := Some printing_handler\<rparr>)
      (request ''/secure'')))) = []
   \<and> response_actions (effects (snd (start_webpage_rendering_server (Some ''production'')
      node_koa
      (resolving \<lparr>status = Number 200, content = String ''<html>Users</html>'',
                  redirect = Undefined\<rparr>)
      (plain_options\<lparr>middleware := Some [placeholder_body]\<rparr>) (request ''/users'')))) =
     [Set_body (String ''Loading''), Set_body (String ''<html>Users</html>'')]"
proof (intro conjI)
  show "response_actions (effects (snd (start_webpage_rendering_server (Some ''production'')
      node_koa rejecting (plain_options\<lparr>catch := Some printing_handler\<rparr>)
      (request ''/secure'')))) = []"
    by (simp add: server_unfold handle_errors_def downstream_plain rendering_rejected
        rendering_failed_handler printing_handler_def effects_begin_request
        effects_end_request response_actions_def Let_def)
next
  show "response_actions (effects (snd (start_webpage_rendering_server
      (Some ''production'') node_koa
      (resolving \<lparr>status = Number 200, content = String ''<html>Users</html>'',
                  redirect = Undefined\<rparr>)
      (plain_options\<lparr>middleware := Some [placeholder_body]\<rparr>) (request ''/users'')))) =
     [Set_body (String ''Loading''), Set_body (String ''<html>Users</html>'')]"
    by (simp add: server_unfold handle_errors_def placeholder_downstream rendering_content
        effects_begin_request effects_end_request response_actions_def Let_def)
qed

text \<open>
  C1, amended. On a server with no custom middleware and no error handler, a request gets
  exactly one response-producing action whenever the server returns, and none when an
  exception leaves it (which happens only when Koa refuses a status at the outer boundary,
  or what was thrown is \<open>null\<close> or \<open>undefined\<close>). The server returns, with the redirect as
  the one action, when \<open>render\<close> resolves with a redirect; with the body as the one action,
  when \<open>render\<close> resolves with no redirect and with no status or an HTTP status; and, outside
  the development mode, with the error response of the outer boundary as the one action
  when \<open>render\<close> is rejected with an error the boundary can answer. When \<open>render\<close> is rejected
  and an error handler is configured, the response-producing actions are those the handler
  leaves, and one more (the error response of the outer boundary) when the handler throws
  and the boundary returns.
\<close>

theorem one_response_action:
  fixes p :: string and rt :: runtime and mods :: modules and opts :: options
    and node_env :: "string option"
  defines "url \<equiv> trim_question_mark p"
  defines "s2 \<equiv> perform (Increment ''requests.errors.handled'')
                  (perform (Increment (''request.url.hits.'' @ url))
                    (begin_request url (request p)))"
  defines "answer \<equiv> start_webpage_rendering_server node_env rt mods opts (request p)"
  assumes "custom_middleware opts = []"
  shows "(catch opts = None \<longrightarrow>
          length (response_actions (effects (snd answer))) = (if fst answer = None then 1 else 0))
    \<and> (\<forall>result. render mods p = Inr result \<longrightarrow> truthy (redirect result) \<longrightarrow>
          fst answer = None
          \<and> response_actions (effects (snd answer)) = [Redirect (redirect result)])
    \<and> (\<forall>result. render mods p = Inr result \<longrightarrow> \<not> truthy (redirect result) \<longrightarrow>
          (\<not> truthy (status result) \<or> valid_status (status result)) \<longrightarrow>
          fst answer = None
          \<and> response_actions (effects (snd answer)) = [Set_body (content result)])
    \<and> (\<forall>error. render mods p = Inl error \<longrightarrow> catch opts = None \<longrightarrow>
          \<not> development_mode node_env \<longrightarrow> answerable error \<longrightarrow>
          fst answer = None
          \<and> length (response_actions (effects (snd answer))) = 1)
    \<and> (\<forall>error h. render mods p = Inl error \<longrightarrow> catch opts = Some h \<longrightarrow>
          length (response_actions (effects (snd answer))) =
            length (response_actions (effects (snd (h error url redirect_to s2))))
            + (if fst (h error url redirect_to s2) \<noteq> None \<and> fst answer = None then 1 else 0))"
proof -
  let ?b = "begin_request url (request p)"
  let ?s1 = "perform (Increment (''request.url.hits.'' @ url)) ?b"
  let ?dev = "development_mode node_env"
  have ret: "answer = (None, end_request url s')"
    if "downstream rt mods opts ?b = (None, s')" for s'
    using server_on_return [of rt mods opts "request p" s' node_env] that
    by (simp add: url_def answer_def)
  have thr: "answer = (fst (on_error ?dev rt mods opts error s'),
        end_request url (snd (on_error ?dev rt mods opts error s')))"
    if "downstream rt mods opts ?b = (Some error, s')" for error s'
    using server_on_throw [of rt mods opts "request p" error s' node_env] that
    by (simp add: url_def answer_def)
  have down: "downstream rt mods opts = isomorphic_rendering rt mods opts"
    by (rule downstream_plain [OF assms(4)])
  have thrown_count: "length (response_actions (effects (snd answer))) =
      length (response_actions (effects s')) + (if fst answer = None then 1 else 0)"
    if "downstream rt mods opts ?b = (Some error, s')" for error s'
    by (simp add: thr [OF that] effects_end_request response_actions_on_error)
      (simp add: response_actions_def)
  have redirected: "fst answer = None
      \<and> response_actions (effects (snd answer)) = [Redirect (redirect result)]"
    if "render mods p = Inr result" "truthy (redirect result)" for result
  proof -
    have "downstream rt mods opts ?b = (None, perform (Redirect (redirect result)) ?s1)"
      using rendering_redirect [of mods ?b result rt opts] that by (simp add: down url_def)
    from ret [OF this] show ?thesis
      by (simp add: effects_end_request) (simp add: response_actions_def)
  qed
  have content: "fst answer = None
      \<and> response_actions (effects (snd answer)) = [Set_body (content result)]"
    if "render mods p = Inr result" "\<not> truthy (redirect result)"
      "\<not> truthy (status result) \<or> valid_status (status result)" for result
  proof -
    have "downstream rt mods opts ?b =
        (None, perform (Set_body (content result))
          (if truthy (status result) then perform (Set_status (status result)) ?s1 else ?s1))"
      using rendering_content [of mods ?b result rt opts] that by (simp add: down url_def)
    from ret [OF this] show ?thesis
      by (simp add: effects_end_request) (simp add: response_actions_def)
  qed
  have no_handler: "length (response_actions (effects (snd answer))) =
      (if fst answer = None then 1 else 0)"
    if none: "catch opts = None"
  proof (cases "render mods p")
    case (Inl error)
    then have "downstream rt mods opts ?b = (Some error, s2)"
      using rendering_rejected [of mods ?b error rt opts] none
      by (simp add: down rendering_failed_no_handler s2_def url_def)
    from thrown_count [OF this] show ?thesis
      by (simp add: s2_def response_actions_def effects_begin_request)
  next
    case (Inr result)
    show ?thesis
    proof (cases "truthy (redirect result)")
      case True
      with Inr redirected [of result] show ?thesis by simp
    next
      case False
      show ?thesis
      proof (cases "\<not> truthy (status result) \<or> valid_status (status result)")
        case True
        with Inr False content [of result] show ?thesis by simp
      next
        case refused: False
        then have "downstream rt mods opts ?b =
            (Some (status_error rt (status result)),
             perform (Increment ''requests.errors.handled'') ?s1)"
          using rendering_refused [of mods ?b result rt opts] Inr False none
          by (simp add: down rendering_failed_no_handler url_def)
        from thrown_count [OF this] show ?thesis
          by (simp add: response_actions_def effects_begin_request)
      qed
    qed
  qed
  have production: "fst answer = None \<and> length (response_actions (effects (snd answer))) = 1"
    if "render mods p = Inl error" "catch opts = None" "\<not> ?dev" "answerable error" for error
  proof -
    have d: "downstream rt mods opts ?b = (Some error, s2)"
      using rendering_rejected [of mods ?b error rt opts] that(1,2)
      by (simp add: down rendering_failed_no_handler s2_def url_def)
    have "fst (on_error ?dev rt mods opts error s2) = None"
      using that(3,4) by (simp add: on_error_def Let_def respond_with_error_answerable)
    then have "fst answer = None"
      by (simp add: thr [OF d])
    with no_handler [OF that(2)] show ?thesis by simp
  qed
  have handled: "length (response_actions (effects (snd answer))) =
      length (response_actions (effects (snd (h error url redirect_to s2))))
      + (if fst (h error url redirect_to s2) \<noteq> None \<and> fst answer = None then 1 else 0)"
    if "render mods p = Inl error" "catch opts = Some h" for error h
  proof -
    obtain r s3 where h: "h error url redirect_to s2 = (r, s3)"
      by (cases "h error url redirect_to s2")
    have d: "downstream rt mods opts ?b = (r, s3)"
      using rendering_rejected [of mods ?b error rt opts] that h
      by (simp add: down rendering_failed_handler s2_def url_def)
    show ?thesis
    proof (cases r)
      case None
      with d ret [of s3] h show ?thesis
        by (simp add: effects_end_request) (simp add: response_actions_def)
    next
      case (Some thrown)
      with d thrown_count [of thrown s3] h show ?thesis
        by simp
    qed
  qed
  show ?thesis
    using no_handler redirected content production handled by blast
qed

theorem one_response_action_witness:
  "response_actions (effects (snd (start_webpage_rendering_server (Some ''production'')
      node_koa
      (resolving \<lparr>status = Number 200, content = String ''<html>Users</html>'',
                  redirect = Undefined\<rparr>)
      plain_options (request ''/users?'')))) = [Set_body (String ''<html>Users</html>'')]
   \<and> length (response_actions (effects (snd (start_webpage_rendering_server
      (Some ''production'') node_koa rejecting plain_options (request ''/secure''))))) = 1
   \<and> length (response_actions (effects (snd (start_webpage_rendering_server
      (Some ''production'') node_koa rejecting
      (plain_options\<lparr>catch := Some redirecting_handler\<rparr>) (request ''/secure''))))) = 1"
proof -
  have c: "custom_middleware plain_options = []"
    by simp
  have c': "custom_middleware (plain_options\<lparr>catch := Some redirecting_handler\<rparr>) = []"
    by simp
  note a = one_response_action [OF c, where rt = node_koa and node_env = "Some ''production''"
      and mods = "resolving \<lparr>status = Number 200, content = String ''<html>Users</html>'',
                  redirect = Undefined\<rparr>" and p = "''/users?''",
      THEN conjunct2, THEN conjunct2, THEN conjunct1]
  note b = one_response_action [OF c, where rt = node_koa and node_env = "Some ''production''"
      and mods = rejecting and p = "''/secure''",
      THEN conjunct2, THEN conjunct2, THEN conjunct2, THEN conjunct1]
  note h = one_response_action [OF c', where rt = node_koa and node_env = "Some ''production''"
      and mods = rejecting and p = "''/secure''",
      THEN conjunct2, THEN conjunct2, THEN conjunct2, THEN conjunct2]
  have "response_actions (effects (snd (start_webpage_rendering_server (Some ''production'')
      node_koa
      (resolving \<lparr>status = Number 200, content = String ''<html>Users</html>'',
                  redirect = Undefined\<rparr>)
      plain_options (request ''/users?'')))) = [Set_body (String ''<html>Users</html>'')]"
    using a by simp
  moreover have "length (response_actions (effects (snd (start_webpage_rendering_server
      (Some ''production'') node_koa rejecting plain_options (request ''/secure''))))) = 1"
    using b by (simp add: development_mode_def)
  moreover have "length (response_actions (effects (snd (start_webpage_rendering_server
      (Some ''production'') node_koa rejecting
      (plain_options\<lparr>catch := Some redirecting_handler\<rparr>) (request ''/secure''))))) = 1"
    using h
    by (simp add: redirecting_handler_def redirect_to_def effects_begin_request
        response_actions_def)
  ultimately show ?thesis by simp
qed

subsection \<open>The timers\<close>

lemma timer_effects_on_error:
  "filter timer_effect (effects (snd (on_error development rt mods opts error s))) =
     filter timer_effect (effects s)"
  using on_error_extends [of development rt mods opts error s] by auto

lemma count_list_filter:
  "P x \<Longrightarrow> count_list (filter P xs) x = count_list xs x"
  by (induction xs) auto

lemma count_timer_effect_on_error:
  assumes "timer_effect x"
  shows "count_list (effects (snd (on_error development rt mods opts error s))) x =
     count_list (effects s) x"
proof -
  have "count_list (effects (snd (on_error development rt mods opts error s))) x =
      count_list (filter timer_effect
        (effects (snd (on_error development rt mods opts error s)))) x"
    using assms by (simp add: count_list_filter)
  also have "\<dots> = count_list (filter timer_effect (effects s)) x"
    by (simp add: timer_effects_on_error)
  also have "\<dots> = count_list (effects s) x"
    using assms by (simp add: count_list_filter)
  finally show ?thesis .
qed

text \<open>
  C7. For every request the error-handling middleware starts the timer \<open>request\<close> and
  the timer of the url, in this order, before it hands the request on, and when the
  handlers downstream (the custom middleware, the rendering, the error handler) have
  returned or thrown it stops each of the two once and starts none, also when its own
  \<open>catch\<close> block throws: whatever the way out, a timer has one stop more at the end than
  when downstream was done, and any other timer has as many. So when the handlers
  downstream touch no timer themselves, the timer effects of the whole request are the two
  starts followed by one stop of each.
\<close>

theorem timers_stopped_once:
  fixes p :: string and rt :: runtime and mods :: modules and opts :: options
    and node_env :: "string option"
  defines "url \<equiv> trim_question_mark p"
  defines "after \<equiv> snd (downstream rt mods opts (begin_request url (request p)))"
  defines "final \<equiv> snd (start_webpage_rendering_server node_env rt mods opts (request p))"
  shows "effects (begin_request url (request p)) =
        [Increment ''request.count'', Increment (''request.url.count.'' @ url),
         Started ''request'', Started (''request.url.time.'' @ url)]
    \<and> final =
        end_request url
          (case downstream rt mods opts (begin_request url (request p)) of
             (None, s') \<Rightarrow> s'
           | (Some error, s') \<Rightarrow>
               snd (on_error (development_mode node_env) rt mods opts error s'))
    \<and> (\<forall>n. count_list (effects final) (Finished n) =
          count_list (effects after) (Finished n)
          + (if n = ''request'' \<or> n = ''request.url.time.'' @ url then 1 else 0))
    \<and> (\<forall>n. count_list (effects final) (Started n) = count_list (effects after) (Started n))
    \<and> (filter timer_effect (effects after) =
          filter timer_effect (effects (begin_request url (request p))) \<longrightarrow>
        filter timer_effect (effects final) =
          [Started ''request'', Started (''request.url.time.'' @ url),
           Finished ''request'', Finished (''request.url.time.'' @ url)])"
proof -
  let ?d = "downstream rt mods opts (begin_request url (request p))"
  let ?dev = "development_mode node_env"
  let ?x = "case ?d of (None, s') \<Rightarrow> s'
    | (Some error, s') \<Rightarrow> snd (on_error ?dev rt mods opts error s')"
  have dn: "final = end_request url ?x"
    by (simp add: final_def server_unfold handle_errors_def url_def Let_def
        split: prod.splits option.splits)
  have b: "effects (begin_request url (request p)) =
        [Increment ''request.count'', Increment (''request.url.count.'' @ url),
         Started ''request'', Started (''request.url.time.'' @ url)]"
    by (simp add: effects_begin_request)
  have x: "count_list (effects ?x) e = count_list (effects after) e" if "timer_effect e" for e
    using that by (simp add: after_def count_timer_effect_on_error
        split: prod.splits option.splits)
  have f: "count_list (effects final) (Finished n) =
          count_list (effects after) (Finished n)
          + (if n = ''request'' \<or> n = ''request.url.time.'' @ url then 1 else 0)" for n
    by (simp add: dn effects_end_request x)
  have s: "count_list (effects final) (Started n) = count_list (effects after) (Started n)" for n
    by (simp add: dn effects_end_request x)
  have "filter timer_effect (effects ?x) = filter timer_effect (effects after)"
    by (simp add: after_def timer_effects_on_error split: prod.splits option.splits)
  then have t: "filter timer_effect (effects final) =
        [Started ''request'', Started (''request.url.time.'' @ url),
         Finished ''request'', Finished (''request.url.time.'' @ url)]"
    if "filter timer_effect (effects after) =
          filter timer_effect (effects (begin_request url (request p)))"
    using that by (simp add: dn effects_end_request b)
  show ?thesis
    using b dn f s t by blast
qed

theorem timers_stopped_once_witness:
  "count_list (effects (snd (start_webpage_rendering_server (Some ''production'') node_koa
      (resolving \<lparr>status = Number 200, content = String ''<html>Users</html>'',
                  redirect = Undefined\<rparr>)
      plain_options (request ''/users?'')))) (Finished ''request.url.time./users'') = 1
   \<and> count_list (effects (snd (start_webpage_rendering_server (Some ''production'') node_koa
      (resolving \<lparr>status = Undefined, content = Undefined,
                  redirect = String ''/new-page''\<rparr>)
      plain_options (request ''/old-page'')))) (Finished ''request'') = 1
   \<and> count_list (effects (snd (start_webpage_rendering_server (Some ''production'') node_koa
      rejecting (plain_options\<lparr>catch := Some redirecting_handler\<rparr>)
      (request ''/secure'')))) (Finished ''request'') = 1
   \<and> filter timer_effect (effects (snd (start_webpage_rendering_server None node_koa
      rejecting plain_options (request ''/secure'')))) =
     [Started ''request'', Started ''request.url.time./secure'',
      Finished ''request'', Finished ''request.url.time./secure'']"
proof -
  have a: "count_list (effects (snd (start_webpage_rendering_server (Some ''production'')
      node_koa
      (resolving \<lparr>status = Number 200, content = String ''<html>Users</html>'',
                  redirect = Undefined\<rparr>)
      plain_options (request ''/users?'')))) (Finished ''request.url.time./users'') = 1"
    using timers_stopped_once [where node_env = "Some ''production''" and rt = node_koa
        and mods = "resolving \<lparr>status = Number 200, content = String ''<html>Users</html>'',
                    redirect = Undefined\<rparr>"
        and opts = plain_options and p = "''/users?''",
        THEN conjunct2, THEN conjunct2, THEN conjunct1,
        THEN spec [where x = "''request.url.time./users''"]]
    by (simp add: downstream_plain rendering_content effects_begin_request)
  have b: "count_list (effects (snd (start_webpage_rendering_server (Some ''production'')
      node_koa
      (resolving \<lparr>status = Undefined, content = Undefined,
                  redirect = String ''/new-page''\<rparr>)
      plain_options (request ''/old-page'')))) (Finished ''request'') = 1"
    using timers_stopped_once [where node_env = "Some ''production''" and rt = node_koa
        and mods = "resolving \<lparr>status = Undefined, content = Undefined,
                    redirect = String ''/new-page''\<rparr>"
        and opts = plain_options and p = "''/old-page''",
        THEN conjunct2, THEN conjunct2, THEN conjunct1, THEN spec [where x = "''request''"]]
    by (simp add: downstream_plain rendering_redirect effects_begin_request)
  have c: "count_list (effects (snd (start_webpage_rendering_server (Some ''production'')
      node_koa rejecting (plain_options\<lparr>catch := Some redirecting_handler\<rparr>)
      (request ''/secure'')))) (Finished ''request'') = 1"
    using timers_stopped_once [where node_env = "Some ''production''" and rt = node_koa
        and mods = rejecting and opts = "plain_options\<lparr>catch := Some redirecting_handler\<rparr>"
        and p = "''/secure''",
        THEN conjunct2, THEN conjunct2, THEN conjunct1, THEN spec [where x = "''request''"]]
    by (simp add: downstream_plain rendering_rejected rendering_failed_handler
        redirecting_handler_def redirect_to_def effects_begin_request)
  have "filter timer_effect (effects (snd (downstream node_koa rejecting plain_options
      (begin_request (trim_question_mark ''/secure'') (request ''/secure''))))) =
    filter timer_effect
      (effects (begin_request (trim_question_mark ''/secure'') (request ''/secure'')))"
    by (simp add: rejecting_downstream)
  from timers_stopped_once [where node_env = None, THEN conjunct2, THEN conjunct2,
      THEN conjunct2, THEN conjunct2, THEN mp, OF this]
  have d: "filter timer_effect (effects (snd (start_webpage_rendering_server None node_koa
      rejecting plain_options (request ''/secure'')))) =
     [Started ''request'', Started ''request.url.time./secure'',
      Finished ''request'', Finished ''request.url.time./secure'']"
    by simp
  show ?thesis
    using a b c d by simp
qed

end
